theory Spec2Isabelle
  imports Complex_Main "HOL-Library.Word"
begin

section \<open>C and host types\<close>

text \<open>
  The C type \<^verbatim>\<open>int\<close> of the query and feature-space hashes is 32 bits wide; an
  \<^verbatim>\<open>Oid\<close> is an unsigned 32-bit number with \<^verbatim>\<open>InvalidOid = 0\<close>.
\<close>

type_synonym int32 = "32 word"
type_synonym uint32 = "32 word"
type_synonym Oid = "32 word"

definition InvalidOid :: Oid where
  "InvalidOid = 0"

definition OidIsValid :: "Oid \<Rightarrow> bool" where
  "OidIsValid objectId = (objectId \<noteq> InvalidOid)"

text \<open>
  A C \<^verbatim>\<open>double\<close>: a finite value is the real number it denotes, the two infinities and
  NaN are kept, because the hooks decide by comparing a double with zero and every
  comparison with NaN is false. The two modules do no arithmetic on doubles; the one
  library function they call, \<^verbatim>\<open>exp\<close>, is a parameter.
\<close>

datatype double = Finite real | PosInf | NegInf | NaN

fun d_le :: "double \<Rightarrow> double \<Rightarrow> bool" where
  "d_le NaN _ = False"
| "d_le _ NaN = False"
| "d_le NegInf _ = True"
| "d_le _ PosInf = True"
| "d_le (Finite x) (Finite y) = (x \<le> y)"
| "d_le _ _ = False"

fun d_lt :: "double \<Rightarrow> double \<Rightarrow> bool" where
  "d_lt NaN _ = False"
| "d_lt _ NaN = False"
| "d_lt PosInf _ = False"
| "d_lt _ NegInf = False"
| "d_lt (Finite x) (Finite y) = (x < y)"
| "d_lt _ _ = True"

text \<open>The C conversion of an \<^verbatim>\<open>int\<close> to a \<^verbatim>\<open>double\<close> (exact for 32 bits).\<close>

definition double_of_int32 :: "int32 \<Rightarrow> double" where
  "double_of_int32 i = Finite (real_of_int (sint i))"

subsection \<open>\<^verbatim>\<open>strstr\<close>\<close>

fun has_prefix :: "string \<Rightarrow> string \<Rightarrow> bool" where
  "has_prefix [] _ = True"
| "has_prefix (c # cs) [] = False"
| "has_prefix (c # cs) (h # hs) = (c = h \<and> has_prefix cs hs)"

text \<open>\<open>strstr haystack needle\<close> holds when the C call returns a non-NULL pointer.\<close>

fun strstr :: "string \<Rightarrow> string \<Rightarrow> bool" where
  "strstr [] needle = has_prefix needle []"
| "strstr (h # hs) needle = (has_prefix needle (h # hs) \<or> strstr hs needle)"

section \<open>The query context (\<^verbatim>\<open>query_context\<close>)\<close>

text \<open>
  The fields of the global \<^verbatim>\<open>query_context\<close> that the two modules read and write.
  \<open>start_planning_time = 0\<close> is the zero \<^verbatim>\<open>instr_time\<close>.
\<close>

record QueryContextData =
  query_hash :: int32
  learn_aqo :: bool
  use_aqo :: bool
  fspace_hash :: int32
  auto_tuning :: bool
  collect_stat :: bool
  adding_query :: bool
  explain_only :: bool
  start_planning_time :: nat
  planning_time :: double

text \<open>\<^verbatim>\<open>disable_aqo_for_query\<close> (preprocessing.c, lines 369-382).\<close>

definition disable_aqo_for_query :: "QueryContextData \<Rightarrow> QueryContextData" where
  "disable_aqo_for_query qc =
     qc\<lparr>learn_aqo := False,
        use_aqo := False,
        auto_tuning := False,
        collect_stat := False,
        adding_query := False,
        explain_only := False,
        start_planning_time := 0,
        planning_time := Finite (- 1)\<rparr>"

section \<open>Query preprocessing (preprocessing.c)\<close>

datatype AQO_MODE =
    AQO_MODE_INTELLIGENT
  | AQO_MODE_FORCED
  | AQO_MODE_CONTROLLED
  | AQO_MODE_LEARN
  | AQO_MODE_FROZEN
  | AQO_MODE_DISABLED
  | AQO_MODE_OTHER int  \<comment> \<open>any other value of the integer variable \<^verbatim>\<open>aqo_mode\<close>\<close>

datatype CmdType =
  CMD_UNKNOWN | CMD_SELECT | CMD_UPDATE | CMD_INSERT | CMD_DELETE | CMD_UTILITY | CMD_NOTHING

datatype RTEKind = RTE_RELATION | RTE_SUBQUERY | RTE_JOIN | RTE_FUNCTION | RTE_OTHER

record RangeTblEntry =
  rtekind :: RTEKind
  rte_relid :: Oid

text \<open>
  A parsed query, as far as \<^verbatim>\<open>aqo_planner\<close> looks at it: the command type, the range
  table, and the query nodes that the host's \<^verbatim>\<open>query_tree_walker\<close> and
  \<^verbatim>\<open>expression_tree_walker\<close> reach below it (expression nodes in between only pass
  the walker on).
\<close>

datatype Query = Query (commandType: CmdType) (rtable: "RangeTblEntry list") (subqueries: "Query list")

datatype PlannedStmt = PlannedStmt nat
datatype ParamListInfo = ParamListInfo nat

text \<open>A lock tag as \<^verbatim>\<open>init_lock_tag(&tag, key1, key2)\<close> fills it.\<close>

datatype LOCKTAG = LOCKTAG uint32 uint32
datatype LOCKMODE = AccessShareLock | ExclusiveLock

text \<open>The calls that leave the module, in the order they are made.\<close>

datatype event =
    Ev_selectivity_cache_clear
  | Ev_find_query int32
  | Ev_add_deactivated_query int32
  | Ev_LockAcquire LOCKTAG LOCKMODE
  | Ev_update_query int32 int32 bool bool bool
  | Ev_add_query_text int32 string
  | Ev_LockRelease LOCKTAG LOCKMODE
  | Ev_default_planner

text \<open>A row of \<^verbatim>\<open>aqo_queries\<close> without its key: what \<^verbatim>\<open>find_query\<close> hands back in
  \<^verbatim>\<open>query_params[1..4]\<close>.\<close>

record query_row =
  row_learn_aqo :: bool
  row_use_aqo :: bool
  row_fspace_hash :: int32
  row_auto_tuning :: bool

text \<open>
  What the header \<^verbatim>\<open>aqo.h\<close> (not among the sources) and the build fix for both modules:
  the macro \<^verbatim>\<open>IsQueryDisabled()\<close>, a test on the fields of \<^verbatim>\<open>query_context\<close>, is a
  parameter; \<open>USE_ASSERT_CHECKING\<close> says whether \<^verbatim>\<open>Assert\<close> is compiled in.
\<close>

record build_env =
  IsQueryDisabled :: "QueryContextData \<Rightarrow> bool"
  USE_ASSERT_CHECKING :: bool

text \<open>The configuration and the host, as constants of one planning call.\<close>

record planner_env = build_env +
  creating_extension :: bool
  aqo_extension_exists :: bool  \<comment> \<open>\<^verbatim>\<open>get_extension_oid("aqo", true) != InvalidOid\<close>\<close>
  IsInParallelMode :: bool
  IsParallelWorker :: bool
  RecoveryInProgress :: bool
  aqo_mode :: AQO_MODE
  force_collect_stat :: bool
  aqo_profile_enable :: int
  aqo_profile_classes :: int
  application_name :: string
  IsCatalogRelation :: "Oid \<Rightarrow> bool"
  RelationGetRelationName :: "Oid \<Rightarrow> string"
  get_query_hash :: "Query \<Rightarrow> string option \<Rightarrow> int32"
  current_time :: nat
  prev_planner_hook :: "(Query \<Rightarrow> string option \<Rightarrow> int \<Rightarrow> ParamListInfo \<Rightarrow> PlannedStmt) option"
  standard_planner :: "Query \<Rightarrow> string option \<Rightarrow> int \<Rightarrow> ParamListInfo \<Rightarrow> PlannedStmt"

text \<open>The state of one backend together with the knowledge base it talks to.\<close>

record aqo_state =
  aqo_enabled :: bool
  query_context :: QueryContextData
  cur_classes :: "int32 list"
  deactivated_queries :: "int32 set"
  aqo_queries :: "int32 \<rightharpoonup> query_row"
  aqo_query_texts :: "int32 \<rightharpoonup> string"
  trace :: "event list"

text \<open>
  A planning call ends with the plan of the default planner, or leaves through
  \<^verbatim>\<open>elog(ERROR, ...)\<close> (format string and argument), or through a failed \<^verbatim>\<open>Assert\<close>
  when assertions are compiled in.
\<close>

datatype failure = Elog_ERROR string int | Assert_failed string

datatype outcome = Planned PlannedStmt | Failed failure

definition log_event :: "event \<Rightarrow> aqo_state \<Rightarrow> aqo_state" where
  "log_event e s = s\<lparr>trace := trace s @ [e]\<rparr>"

subsection \<open>The storage interface\<close>

text \<open>
  Modelled from the spec: \<^verbatim>\<open>query_is_deactivated\<close> and \<^verbatim>\<open>add_deactivated_query\<close>
  (storage module, not among the sources) are \<open>is_deactivated(query_hash) -> bool\<close> and
  \<open>deactivate(query_hash)\<close> on a deny-list that is a set of query hashes.
\<close>

definition query_is_deactivated :: "int32 \<Rightarrow> aqo_state \<Rightarrow> bool" where
  "query_is_deactivated qhash s = (qhash \<in> deactivated_queries s)"

definition add_deactivated_query :: "int32 \<Rightarrow> aqo_state \<Rightarrow> aqo_state" where
  "add_deactivated_query qhash s =
     log_event (Ev_add_deactivated_query qhash)
       (s\<lparr>deactivated_queries := insert qhash (deactivated_queries s)\<rparr>)"

text \<open>
  Modelled from the spec: \<^verbatim>\<open>find_query\<close>, \<^verbatim>\<open>update_query\<close> and \<^verbatim>\<open>add_query_text\<close>
  (storage module, not among the sources) are
  \<open>find_class(query_hash) -> Option<(learn, use, fspace_hash, auto_tune)>\<close>,
  \<open>upsert_class(query_hash, fspace_hash, learn, use, auto_tune)\<close> and
  \<open>store_query_text(query_hash, text)\<close> on the class table and the text table.
\<close>

definition find_query :: "int32 \<Rightarrow> aqo_state \<Rightarrow> query_row option \<times> aqo_state" where
  "find_query qhash s = (aqo_queries s qhash, log_event (Ev_find_query qhash) s)"

definition update_query :: "int32 \<Rightarrow> int32 \<Rightarrow> bool \<Rightarrow> bool \<Rightarrow> bool \<Rightarrow> aqo_state \<Rightarrow> aqo_state" where
  "update_query qhash fhash learn use auto s =
     log_event (Ev_update_query qhash fhash learn use auto)
       (s\<lparr>aqo_queries := (aqo_queries s)(qhash \<mapsto>
             \<lparr>row_learn_aqo = learn, row_use_aqo = use,
              row_fspace_hash = fhash, row_auto_tuning = auto\<rparr>)\<rparr>)"

definition add_query_text :: "int32 \<Rightarrow> string \<Rightarrow> aqo_state \<Rightarrow> aqo_state" where
  "add_query_text qhash query_string s =
     log_event (Ev_add_query_text qhash query_string)
       (s\<lparr>aqo_query_texts := (aqo_query_texts s)(qhash \<mapsto> query_string)\<rparr>)"

subsection \<open>\<^verbatim>\<open>call_default_planner\<close>, \<^verbatim>\<open>aqoIsEnabled\<close>, the system-relation walker\<close>

definition call_default_planner ::
  "planner_env \<Rightarrow> Query \<Rightarrow> string option \<Rightarrow> int \<Rightarrow> ParamListInfo \<Rightarrow> aqo_state \<Rightarrow> outcome \<times> aqo_state" where
  "call_default_planner env parse query_string cursorOptions boundParams s =
     (case prev_planner_hook env of
        Some hook \<Rightarrow>
          (Planned (hook parse query_string cursorOptions boundParams), log_event Ev_default_planner s)
      | None \<Rightarrow>
          (Planned (standard_planner env parse query_string cursorOptions boundParams),
           log_event Ev_default_planner s))"

definition aqoIsEnabled :: "planner_env \<Rightarrow> aqo_state \<Rightarrow> bool \<times> aqo_state" where
  "aqoIsEnabled env s =
     (if creating_extension env then (False, s)
      else if aqo_enabled s then (True, s)
      else if aqo_extension_exists env then (True, s\<lparr>aqo_enabled := True\<rparr>)
      else (aqo_enabled s, s))"

definition IsAQORelation :: "string \<Rightarrow> bool" where
  "IsAQORelation relname =
     (if relname = ''aqo_data'' \<or>
         relname = ''aqo_query_texts'' \<or>
         relname = ''aqo_query_stat'' \<or>
         relname = ''aqo_queries'' \<or>
         relname = ''aqo_ignorance''
      then True else False)"

fun isQueryUsingSystemRelation_walker :: "planner_env \<Rightarrow> Query \<Rightarrow> bool" where
  "isQueryUsingSystemRelation_walker env (Query ct rt subs) =
     (if list_ex (\<lambda>rte. rtekind rte = RTE_RELATION \<and>
                      (IsCatalogRelation env (rte_relid rte) \<or>
                       IsAQORelation (RelationGetRelationName env (rte_relid rte)))) rt
      then True
      else list_ex (isQueryUsingSystemRelation_walker env) subs)"

definition isQueryUsingSystemRelation :: "planner_env \<Rightarrow> Query \<Rightarrow> bool" where
  "isQueryUsingSystemRelation env query = isQueryUsingSystemRelation_walker env query"

subsection \<open>\<^verbatim>\<open>aqo_planner\<close>\<close>

text \<open>The condition of lines 150-160, after \<^verbatim>\<open>aqoIsEnabled()\<close> returned \<open>enabled\<close>.\<close>

definition bypass_condition :: "planner_env \<Rightarrow> bool \<Rightarrow> Query \<Rightarrow> bool" where
  "bypass_condition env enabled parse =
     (\<not> enabled \<or>
      (commandType parse \<noteq> CMD_SELECT \<and> commandType parse \<noteq> CMD_INSERT \<and>
       commandType parse \<noteq> CMD_UPDATE \<and> commandType parse \<noteq> CMD_DELETE) \<or>
      creating_extension env \<or>
      IsInParallelMode env \<or> IsParallelWorker env \<or>
      (aqo_mode env = AQO_MODE_DISABLED \<and> \<not> force_collect_stat env \<and>
       aqo_profile_enable env \<le> 0) \<or>
      strstr (application_name env) ''postgres_fdw'' \<or>
      strstr (application_name env) ''pgfdw:'' \<or>
      isQueryUsingSystemRelation env parse \<or>
      RecoveryInProgress env)"

text \<open>Lines 209-257: the class is not in the knowledge base.\<close>

definition new_class_settings :: "planner_env \<Rightarrow> aqo_state \<Rightarrow> failure option \<times> aqo_state" where
  "new_class_settings env s =
     (let qc = query_context s in
      case aqo_mode env of
        AQO_MODE_INTELLIGENT \<Rightarrow>
          (None, s\<lparr>query_context := qc\<lparr>adding_query := True,
                                        learn_aqo := True,
                                        use_aqo := False,
                                        fspace_hash := query_hash qc,
                                        auto_tuning := True,
                                        collect_stat := True\<rparr>\<rparr>)
      | AQO_MODE_FORCED \<Rightarrow>
          (None, s\<lparr>query_context := qc\<lparr>adding_query := False,
                                        learn_aqo := True,
                                        use_aqo := True,
                                        auto_tuning := False,
                                        fspace_hash := 0,
                                        collect_stat := False\<rparr>\<rparr>)
      | AQO_MODE_CONTROLLED \<Rightarrow>
          (None, s\<lparr>query_context := qc\<lparr>adding_query := False,
                                        learn_aqo := False,
                                        use_aqo := False,
                                        auto_tuning := False,
                                        collect_stat := False\<rparr>\<rparr>)
      | AQO_MODE_FROZEN \<Rightarrow>
          (None, s\<lparr>query_context := qc\<lparr>adding_query := False,
                                        learn_aqo := False,
                                        use_aqo := False,
                                        auto_tuning := False,
                                        collect_stat := False\<rparr>\<rparr>)
      | AQO_MODE_LEARN \<Rightarrow>
          (None, s\<lparr>query_context := qc\<lparr>adding_query := True,
                                        learn_aqo := True,
                                        use_aqo := True,
                                        fspace_hash := query_hash qc,
                                        auto_tuning := False,
                                        collect_stat := True\<rparr>\<rparr>)
      | AQO_MODE_DISABLED \<Rightarrow>
          (if USE_ASSERT_CHECKING env then (Some (Assert_failed ''0''), s) else (None, s))
      | AQO_MODE_OTHER m \<Rightarrow>
          (Some (Elog_ERROR ''unrecognized mode in AQO: %d'' m), s))"

text \<open>Lines 258-309: the class exists in the knowledge base with the row \<open>r\<close>.\<close>

definition stored_class_settings ::
  "planner_env \<Rightarrow> query_row \<Rightarrow> aqo_state \<Rightarrow> failure option \<times> aqo_state" where
  "stored_class_settings env r s =
     (let qc = (query_context s)\<lparr>adding_query := False,
                                  learn_aqo := row_learn_aqo r,
                                  use_aqo := row_use_aqo r,
                                  fspace_hash := row_fspace_hash r,
                                  auto_tuning := row_auto_tuning r,
                                  collect_stat := row_auto_tuning r\<rparr>;
          s1 = s\<lparr>query_context := qc\<rparr>;
          s2 = (if \<not> learn_aqo qc \<and> \<not> use_aqo qc \<and>
                   \<not> auto_tuning qc \<and> \<not> force_collect_stat env
                then add_deactivated_query (query_hash qc) s1
                else s1)
      in case aqo_mode env of
        AQO_MODE_FROZEN \<Rightarrow>
          (None, s2\<lparr>query_context := (query_context s2)\<lparr>learn_aqo := False,
                                                           auto_tuning := False,
                                                           collect_stat := False\<rparr>\<rparr>)
      | AQO_MODE_LEARN \<Rightarrow>
          (None, s2\<lparr>query_context := (query_context s2)\<lparr>collect_stat := True,
                                                           fspace_hash := query_hash qc\<rparr>\<rparr>)
      | AQO_MODE_INTELLIGENT \<Rightarrow> (None, s2)
      | AQO_MODE_FORCED \<Rightarrow> (None, s2)
      | AQO_MODE_CONTROLLED \<Rightarrow> (None, s2)
      | AQO_MODE_DISABLED \<Rightarrow> (None, s2)
      | AQO_MODE_OTHER m \<Rightarrow> (Some (Elog_ERROR ''Unrecognized aqo mode %d'' m), s2))"

text \<open>Lines 312-337: find-or-add of the class and of its text under the advisory lock.\<close>

definition init_lock_tag :: "uint32 \<Rightarrow> uint32 \<Rightarrow> LOCKTAG" where
  "init_lock_tag key1 key2 = LOCKTAG key1 key2"

definition register_class :: "string option \<Rightarrow> aqo_state \<Rightarrow> aqo_state" where
  "register_class query_string s =
     (let qc = query_context s;
          tag = init_lock_tag (query_hash qc) 0;
          s1 = log_event (Ev_LockAcquire tag ExclusiveLock) s;
          s2 = update_query (query_hash qc) (fspace_hash qc)
                 (learn_aqo qc) (use_aqo qc) (auto_tuning qc) s1;
          s3 = (case query_string of
                  Some text \<Rightarrow> add_query_text (query_hash qc) text s2
                | None \<Rightarrow> s2)
      in log_event (Ev_LockRelease tag ExclusiveLock) s3)"

text \<open>Lines 311-363: from the label \<^verbatim>\<open>ignore_query_settings\<close> to the end.\<close>

definition ignore_query_settings ::
  "planner_env \<Rightarrow> bool \<Rightarrow> Query \<Rightarrow> string option \<Rightarrow> int \<Rightarrow> ParamListInfo \<Rightarrow>
   aqo_state \<Rightarrow> outcome \<times> aqo_state" where
  "ignore_query_settings env query_is_stored parse query_string cursorOptions boundParams s =
     (let s1 = (if \<not> query_is_stored \<and>
                   (adding_query (query_context s) \<or> force_collect_stat env)
                then register_class query_string s else s);
          s2 = (if force_collect_stat env
                then s1\<lparr>query_context :=
                          (query_context s1)\<lparr>collect_stat := True,
                                                fspace_hash := query_hash (query_context s1)\<rparr>\<rparr>
                else s1);
          s3 = (if aqo_profile_classes env > 0 \<and> aqo_profile_enable env \<noteq> 0
                then s2\<lparr>query_context := (query_context s2)\<lparr>planning_time := Finite 0\<rparr>\<rparr>
                else s2);
          s4 = (if \<not> IsQueryDisabled env (query_context s3)
                then s3\<lparr>query_context :=
                          (query_context s3)\<lparr>start_planning_time := current_time env\<rparr>\<rparr>
                else s3)
      in call_default_planner env parse query_string cursorOptions boundParams s4)"

text \<open>
  Lines 133-364. Debug logging and the switches of the memory context have no counterpart
  here.
\<close>

definition aqo_planner ::
  "planner_env \<Rightarrow> Query \<Rightarrow> string option \<Rightarrow> int \<Rightarrow> ParamListInfo \<Rightarrow>
   aqo_state \<Rightarrow> outcome \<times> aqo_state" where
  "aqo_planner env parse query_string cursorOptions boundParams s0 =
     (let (enabled, s) = aqoIsEnabled env s0 in
      if bypass_condition env enabled parse
      then call_default_planner env parse query_string cursorOptions boundParams
             (s\<lparr>query_context := disable_aqo_for_query (query_context s)\<rparr>)
      else
        let s1 = log_event Ev_selectivity_cache_clear s;
            qhash = get_query_hash env parse query_string;
            s2 = s1\<lparr>query_context := (query_context s1)\<lparr>query_hash := qhash\<rparr>\<rparr>
        in
        if query_is_deactivated qhash s2 \<or> qhash \<in> set (cur_classes s2)
        then call_default_planner env parse query_string cursorOptions boundParams
               (s2\<lparr>query_context := disable_aqo_for_query (query_context s2)\<rparr>)
        else
          let s3 = s2\<lparr>cur_classes := cur_classes s2 @ [qhash]\<rparr> in
          if aqo_mode env = AQO_MODE_DISABLED
          then ignore_query_settings env False parse query_string cursorOptions boundParams
                 (s3\<lparr>query_context := disable_aqo_for_query (query_context s3)\<rparr>)
          else
            case find_query qhash s3 of
              (None, s4) \<Rightarrow>
                (case new_class_settings env s4 of
                   (Some f, s5) \<Rightarrow> (Failed f, s5)
                 | (None, s5) \<Rightarrow>
                     ignore_query_settings env False parse query_string cursorOptions boundParams s5)
            | (Some r, s4) \<Rightarrow>
                (case stored_class_settings env r s4 of
                   (Some f, s5) \<Rightarrow> (Failed f, s5)
                 | (None, s5) \<Rightarrow>
                     ignore_query_settings env True parse query_string cursorOptions boundParams s5))"

section \<open>Notions used in the statements\<close>

text \<open>
  The two early exits of \<^verbatim>\<open>aqo_planner\<close>: the condition of lines 150-160 and the
  condition of lines 177-178.
\<close>

definition fast_exit :: "planner_env \<Rightarrow> Query \<Rightarrow> string option \<Rightarrow> aqo_state \<Rightarrow> bool" where
  "fast_exit env parse query_string st =
     (bypass_condition env (fst (aqoIsEnabled env st)) parse \<or>
      query_is_deactivated (get_query_hash env parse query_string) st \<or>
      get_query_hash env parse query_string \<in> set (cur_classes st))"

text \<open>The state at line 199, when neither exit was taken.\<close>

definition classify_entry :: "planner_env \<Rightarrow> Query \<Rightarrow> string option \<Rightarrow> aqo_state \<Rightarrow> aqo_state" where
  "classify_entry env parse query_string st =
     (let s = snd (aqoIsEnabled env st);
          qhash = get_query_hash env parse query_string
      in s\<lparr>trace := trace s @ [Ev_selectivity_cache_clear],
           query_context := (query_context s)\<lparr>query_hash := qhash\<rparr>,
           cur_classes := cur_classes s @ [qhash]\<rparr>)"

text \<open>The six values of the mode enumeration.\<close>

fun recognized_mode :: "AQO_MODE \<Rightarrow> bool" where
  "recognized_mode (AQO_MODE_OTHER v) = False"
| "recognized_mode _ = True"

text \<open>The plan that \<^verbatim>\<open>call_default_planner\<close> returns.\<close>

definition default_plan ::
  "planner_env \<Rightarrow> Query \<Rightarrow> string option \<Rightarrow> int \<Rightarrow> ParamListInfo \<Rightarrow> PlannedStmt" where
  "default_plan env parse query_string cursorOptions boundParams =
     (case prev_planner_hook env of
        Some hook \<Rightarrow> hook parse query_string cursorOptions boundParams
      | None \<Rightarrow> standard_planner env parse query_string cursorOptions boundParams)"

text \<open>The calls made between the state \<open>s\<close> and the later state \<open>s'\<close>.\<close>

definition new_events :: "aqo_state \<Rightarrow> aqo_state \<Rightarrow> event list" where
  "new_events s s' = drop (length (trace s)) (trace s')"

text \<open>
  The calls of a registration of the class of the context \<open>qc\<close>: the exclusive lock keyed
  by the query hash is taken, the class row is written, the text is written when there is
  one, the lock is released.
\<close>

definition registration_events :: "string option \<Rightarrow> QueryContextData \<Rightarrow> event list" where
  "registration_events query_string qc =
     [Ev_LockAcquire (LOCKTAG (query_hash qc) 0) ExclusiveLock,
      Ev_update_query (query_hash qc) (fspace_hash qc) (learn_aqo qc) (use_aqo qc) (auto_tuning qc)] @
     (case query_string of Some text \<Rightarrow> [Ev_add_query_text (query_hash qc) text] | None \<Rightarrow> []) @
     [Ev_LockRelease (LOCKTAG (query_hash qc) 0) ExclusiveLock]"

text \<open>
  The value of the local variable \<^verbatim>\<open>query_is_stored\<close> at the label
  \<^verbatim>\<open>ignore_query_settings\<close>, when neither exit was taken: in the mode Disabled no lookup
  is made and the variable keeps its initial value.
\<close>

definition query_is_stored_at_label ::
  "planner_env \<Rightarrow> Query \<Rightarrow> string option \<Rightarrow> aqo_state \<Rightarrow> bool" where
  "query_is_stored_at_label env parse query_string st =
     (aqo_mode env \<noteq> AQO_MODE_DISABLED \<and>
      aqo_queries st (get_query_hash env parse query_string) \<noteq> None)"

text \<open>
  The state at the label \<^verbatim>\<open>ignore_query_settings\<close>, when neither exit was taken and the
  mode is one of the six: after line 202 in the mode Disabled, after the lookup and the
  switch of lines 211-256 or lines 260-308 otherwise.
\<close>

definition settled_state :: "planner_env \<Rightarrow> Query \<Rightarrow> string option \<Rightarrow> aqo_state \<Rightarrow> aqo_state" where
  "settled_state env parse query_string st =
     (let s3 = classify_entry env parse query_string st;
          s4 = log_event (Ev_find_query (get_query_hash env parse query_string)) s3
      in if aqo_mode env = AQO_MODE_DISABLED
         then s3\<lparr>query_context := disable_aqo_for_query (query_context s3)\<rparr>
         else case aqo_queries st (get_query_hash env parse query_string) of
                None \<Rightarrow> snd (new_class_settings env s4)
              | Some r \<Rightarrow> snd (stored_class_settings env r s4))"

section \<open>Cardinality estimation hooks (cardinality_hooks.c)\<close>

text \<open>Host objects the hooks only hand on are opaque handles.\<close>

datatype PlannerInfo = PlannerInfo nat
datatype Expr = Expr nat
datatype RestrictInfo = RestrictInfo (clause: Expr)
datatype PathNode = PathNode nat
datatype JoinType = JOIN_INNER | JOIN_LEFT | JOIN_FULL | JOIN_RIGHT | JOIN_SEMI | JOIN_ANTI
datatype EstimationInfo = EstimationInfo (flags: int)
datatype GroupingSets = GroupingSets nat

record SpecialJoinInfo =
  jointype :: JoinType
  sjinfo_node :: nat

text \<open>
  The fields of \<^verbatim>\<open>RelOptInfo\<close>, \<^verbatim>\<open>Path\<close> and \<^verbatim>\<open>ParamPathInfo\<close> that the hooks read
  or write. \<open>path_node\<close> stands for the path object itself, which only
  \<^verbatim>\<open>get_path_clauses\<close> and the default estimators look into.
\<close>

record RelOptInfo =
  relid :: nat
  relids :: "nat list"
  rows :: double
  baserestrictinfo :: "RestrictInfo list"
  cheapest_total_path :: PathNode
  predicted_cardinality :: double
  fss_hash :: int32

record Path =
  path_node :: PathNode
  parent :: RelOptInfo
  path_rows :: double

record ParamPathInfo =
  ppi_rows :: double
  ppi_predicted_ppi_rows :: double
  ppi_fss_ppi_hash :: double

text \<open>
  The global variables of the module, and the selectivity cache that
  \<^verbatim>\<open>cache_selectivity\<close> fills.
\<close>

record card_globals =
  predicted_ppi_rows :: double
  fss_ppi_hash :: double
  selectivity_cache :: "int32 \<times> nat \<times> Oid \<rightharpoonup> double"

text \<open>
  The functions of other modules and of the host that the hooks call, as parameters.
  \<open>predict_for_relation\<close> returns the value of the C function together with the value it
  leaves in \<^verbatim>\<open>*fss\<close>; it reads the knowledge base and \<^verbatim>\<open>query_context\<close>. \<open>aqo_data\<close> is
  the table of stored targets, with the feature space and the signature as key; \<open>c_exp\<close> is
  \<^verbatim>\<open>exp\<close> of the C library. The parameter \<^verbatim>\<open>root\<close> of the hooks is written \<open>proot\<close>.
  Freeing of lists has no counterpart here.
\<close>

record card_env = build_env +
  get_selectivities ::
    "PlannerInfo \<Rightarrow> RestrictInfo list \<Rightarrow> nat \<Rightarrow> JoinType \<Rightarrow> SpecialJoinInfo option \<Rightarrow> double list"
  aqo_get_clauses :: "PlannerInfo \<Rightarrow> RestrictInfo list \<Rightarrow> RestrictInfo list"
  planner_rt_fetch_relid :: "nat \<Rightarrow> PlannerInfo \<Rightarrow> Oid"
  get_eclasses :: "RestrictInfo list \<Rightarrow> nat \<times> int32 list \<times> int32 list"
  get_clause_hash :: "Expr \<Rightarrow> nat \<Rightarrow> int32 list \<Rightarrow> int32 list \<Rightarrow> int32"
  get_list_of_relids :: "PlannerInfo \<Rightarrow> nat list \<Rightarrow> Oid list"
  get_path_clauses :: "PathNode \<Rightarrow> PlannerInfo \<Rightarrow> RestrictInfo list \<times> double list"
  predict_for_relation ::
    "QueryContextData \<Rightarrow> RestrictInfo list \<Rightarrow> double list \<Rightarrow> Oid list \<Rightarrow> double \<times> int32"
  get_grouped_exprs_hash :: "int32 \<Rightarrow> Expr list \<Rightarrow> int32"
  aqo_data :: "int32 \<times> int32 \<rightharpoonup> double \<times> int32"
  c_exp :: "double \<Rightarrow> double"
  prev_set_baserel_rows_estimate_hook :: "(PlannerInfo \<Rightarrow> RelOptInfo \<Rightarrow> double) option"
  set_baserel_rows_estimate_standard :: "PlannerInfo \<Rightarrow> RelOptInfo \<Rightarrow> double"
  prev_get_parameterized_baserel_size_hook ::
    "(PlannerInfo \<Rightarrow> RelOptInfo \<Rightarrow> RestrictInfo list \<Rightarrow> double) option"
  get_parameterized_baserel_size_standard ::
    "PlannerInfo \<Rightarrow> RelOptInfo \<Rightarrow> RestrictInfo list \<Rightarrow> double"
  prev_get_parameterized_joinrel_size_hook ::
    "(PlannerInfo \<Rightarrow> RelOptInfo \<Rightarrow> Path \<Rightarrow> Path \<Rightarrow> SpecialJoinInfo \<Rightarrow> RestrictInfo list \<Rightarrow> double) option"
  get_parameterized_joinrel_size_standard ::
    "PlannerInfo \<Rightarrow> RelOptInfo \<Rightarrow> Path \<Rightarrow> Path \<Rightarrow> SpecialJoinInfo \<Rightarrow> RestrictInfo list \<Rightarrow> double"
  prev_set_joinrel_size_estimates_hook ::
    "(PlannerInfo \<Rightarrow> RelOptInfo \<Rightarrow> RelOptInfo \<Rightarrow> RelOptInfo \<Rightarrow> SpecialJoinInfo \<Rightarrow> RestrictInfo list \<Rightarrow> double) option"
  set_joinrel_size_estimates_standard ::
    "PlannerInfo \<Rightarrow> RelOptInfo \<Rightarrow> RelOptInfo \<Rightarrow> RelOptInfo \<Rightarrow> SpecialJoinInfo \<Rightarrow> RestrictInfo list \<Rightarrow> double"
  prev_estimate_num_groups_hook ::
    "(PlannerInfo \<Rightarrow> Expr list \<Rightarrow> Path \<Rightarrow> RelOptInfo \<Rightarrow> GroupingSets option \<Rightarrow> EstimationInfo option \<Rightarrow> double) option"
  estimate_num_groups ::
    "PlannerInfo \<Rightarrow> Expr list \<Rightarrow> double \<Rightarrow> GroupingSets option \<Rightarrow> EstimationInfo option \<Rightarrow> double"

text \<open>
  Modelled from the spec: \<^verbatim>\<open>load_fss\<close> (storage module, not among the sources), as the
  hooks call it, is
  \<open>load_signature_row(fspace_hash, fss, want_grouping) -> Option<(target, row_count)>\<close>.
\<close>

definition load_fss :: "card_env \<Rightarrow> int32 \<Rightarrow> int32 \<Rightarrow> (double \<times> int32) option" where
  "load_fss env fhash fss = aqo_data env (fhash, fss)"

subsection \<open>The default estimators (lines 41-130)\<close>

text \<open>
  The host's estimators for a relation write the field \<^verbatim>\<open>rel->rows\<close> only; they are
  modelled by the value they write there.
\<close>

definition default_set_baserel_rows_estimate :: "card_env \<Rightarrow> PlannerInfo \<Rightarrow> RelOptInfo \<Rightarrow> RelOptInfo" where
  "default_set_baserel_rows_estimate env proot rel =
     (case prev_set_baserel_rows_estimate_hook env of
        Some hook \<Rightarrow> rel\<lparr>rows := hook proot rel\<rparr>
      | None \<Rightarrow> rel\<lparr>rows := set_baserel_rows_estimate_standard env proot rel\<rparr>)"

definition default_get_parameterized_baserel_size ::
  "card_env \<Rightarrow> PlannerInfo \<Rightarrow> RelOptInfo \<Rightarrow> RestrictInfo list \<Rightarrow> double" where
  "default_get_parameterized_baserel_size env proot rel param_clauses =
     (case prev_get_parameterized_baserel_size_hook env of
        Some hook \<Rightarrow> hook proot rel param_clauses
      | None \<Rightarrow> get_parameterized_baserel_size_standard env proot rel param_clauses)"

definition default_get_parameterized_joinrel_size ::
  "card_env \<Rightarrow> PlannerInfo \<Rightarrow> RelOptInfo \<Rightarrow> Path \<Rightarrow> Path \<Rightarrow> SpecialJoinInfo \<Rightarrow>
   RestrictInfo list \<Rightarrow> double" where
  "default_get_parameterized_joinrel_size env proot rel outer_path inner_path sjinfo restrict_clauses =
     (case prev_get_parameterized_joinrel_size_hook env of
        Some hook \<Rightarrow> hook proot rel outer_path inner_path sjinfo restrict_clauses
      | None \<Rightarrow>
          get_parameterized_joinrel_size_standard env proot rel outer_path inner_path sjinfo
            restrict_clauses)"

definition default_set_joinrel_size_estimates ::
  "card_env \<Rightarrow> PlannerInfo \<Rightarrow> RelOptInfo \<Rightarrow> RelOptInfo \<Rightarrow> RelOptInfo \<Rightarrow> SpecialJoinInfo \<Rightarrow>
   RestrictInfo list \<Rightarrow> RelOptInfo" where
  "default_set_joinrel_size_estimates env proot rel outer_rel inner_rel sjinfo restrictlist =
     (case prev_set_joinrel_size_estimates_hook env of
        Some hook \<Rightarrow> rel\<lparr>rows := hook proot rel outer_rel inner_rel sjinfo restrictlist\<rparr>
      | None \<Rightarrow>
          rel\<lparr>rows := set_joinrel_size_estimates_standard env proot rel outer_rel inner_rel
                          sjinfo restrictlist\<rparr>)"

definition default_estimate_num_groups ::
  "card_env \<Rightarrow> PlannerInfo \<Rightarrow> Expr list \<Rightarrow> Path \<Rightarrow> RelOptInfo \<Rightarrow> GroupingSets option \<Rightarrow>
   EstimationInfo option \<Rightarrow> double" where
  "default_estimate_num_groups env proot groupExprs subpath grouped_rel pgset estinfo =
     (let input_rows = path_rows subpath in
      case prev_estimate_num_groups_hook env of
        Some hook \<Rightarrow> hook proot groupExprs subpath grouped_rel pgset estinfo
      | None \<Rightarrow> estimate_num_groups env proot groupExprs input_rows pgset estinfo)"

subsection \<open>\<^verbatim>\<open>aqo_set_baserel_rows_estimate\<close> (lines 137-187)\<close>

text \<open>The code after the label \<^verbatim>\<open>default_estimator\<close> (lines 184-186).\<close>

definition baserel_default_estimator :: "card_env \<Rightarrow> PlannerInfo \<Rightarrow> RelOptInfo \<Rightarrow> RelOptInfo" where
  "baserel_default_estimator env proot rel =
     default_set_baserel_rows_estimate env proot (rel\<lparr>predicted_cardinality := Finite (- 1)\<rparr>)"

text \<open>
  The call of \<^verbatim>\<open>predict_for_relation\<close> at line 169 with the lists built in lines
  152-168. \<^verbatim>\<open>get_selectivities\<close> only computes a list; where the hooks compute it and
  free it again without use (learning without prediction) the call is left out.
\<close>

definition baserel_prediction ::
  "card_env \<Rightarrow> QueryContextData \<Rightarrow> PlannerInfo \<Rightarrow> RelOptInfo \<Rightarrow> double \<times> int32" where
  "baserel_prediction env qc proot rel =
     (let selectivities = get_selectivities env proot (baserestrictinfo rel) 0 JOIN_INNER None;
          rel_oid = planner_rt_fetch_relid env (relid rel) proot;
          relid_list = (if OidIsValid rel_oid then [rel_oid] else []);
          clauses = aqo_get_clauses env proot (baserestrictinfo rel)
      in predict_for_relation env qc clauses selectivities relid_list)"

definition aqo_set_baserel_rows_estimate ::
  "card_env \<Rightarrow> QueryContextData \<Rightarrow> PlannerInfo \<Rightarrow> RelOptInfo \<Rightarrow> RelOptInfo" where
  "aqo_set_baserel_rows_estimate env qc proot rel =
     (if IsQueryDisabled env qc then baserel_default_estimator env proot rel
      else if \<not> use_aqo qc then baserel_default_estimator env proot rel
      else
        let (predicted, fss) = baserel_prediction env qc proot rel;
            rel1 = rel\<lparr>fss_hash := fss\<rparr>
        in if d_le (Finite 0) predicted
           then rel1\<lparr>rows := predicted, predicted_cardinality := predicted\<rparr>
           else baserel_default_estimator env proot rel1)"

subsection \<open>\<^verbatim>\<open>ppi_hook\<close> (lines 190-198)\<close>

definition ppi_hook ::
  "card_env \<Rightarrow> QueryContextData \<Rightarrow> card_globals \<Rightarrow> ParamPathInfo \<Rightarrow> ParamPathInfo" where
  "ppi_hook env qc g ppi =
     (if IsQueryDisabled env qc then ppi
      else ppi\<lparr>ppi_predicted_ppi_rows := predicted_ppi_rows g,
               ppi_fss_ppi_hash := fss_ppi_hash g\<rparr>)"

subsection \<open>\<^verbatim>\<open>aqo_get_parameterized_baserel_size\<close> (lines 205-278)\<close>

text \<open>
  Modelled from the spec: \<^verbatim>\<open>cache_selectivity\<close> (selectivity cache module, not among the
  sources) is \<open>cache_put(clause_signature, base_relation_oid, target_relation_oid,
  selectivity)\<close>.
\<close>

definition cache_selectivity :: "int32 \<Rightarrow> nat \<Rightarrow> Oid \<Rightarrow> double \<Rightarrow> card_globals \<Rightarrow> card_globals" where
  "cache_selectivity clause_hash relid_index rel_oid selectivity g =
     g\<lparr>selectivity_cache := (selectivity_cache g)((clause_hash, relid_index, rel_oid) \<mapsto> selectivity)\<rparr>"

text \<open>Lines 231-232, 233-234 and 235: the lists of the parameterized base relation.\<close>

definition param_baserel_clauses ::
  "card_env \<Rightarrow> PlannerInfo \<Rightarrow> RelOptInfo \<Rightarrow> RestrictInfo list \<Rightarrow> RestrictInfo list" where
  "param_baserel_clauses env proot rel param_clauses =
     aqo_get_clauses env proot param_clauses @ aqo_get_clauses env proot (baserestrictinfo rel)"

definition param_baserel_selectivities ::
  "card_env \<Rightarrow> PlannerInfo \<Rightarrow> RelOptInfo \<Rightarrow> RestrictInfo list \<Rightarrow> double list" where
  "param_baserel_selectivities env proot rel param_clauses =
     get_selectivities env proot (param_baserel_clauses env proot rel param_clauses)
       (relid rel) JOIN_INNER None"

text \<open>Lines 236-250: the loop that caches the selectivity of every clause.\<close>

definition cache_all_selectivities ::
  "card_env \<Rightarrow> RelOptInfo \<Rightarrow> Oid \<Rightarrow> RestrictInfo list \<Rightarrow> double list \<Rightarrow> card_globals \<Rightarrow> card_globals" where
  "cache_all_selectivities env rel rel_oid allclauses selectivities g =
     (case get_eclasses env allclauses of
        (nargs, args_hash, eclass_hash) \<Rightarrow>
          fold (\<lambda>(l, l2) g'.
                  cache_selectivity
                    (get_clause_hash env (clause l) nargs args_hash eclass_hash)
                    (relid rel) rel_oid l2 g')
               (zip allclauses selectivities) g)"

text \<open>The call of \<^verbatim>\<open>predict_for_relation\<close> at line 268.\<close>

definition param_baserel_prediction ::
  "card_env \<Rightarrow> QueryContextData \<Rightarrow> PlannerInfo \<Rightarrow> RelOptInfo \<Rightarrow> RestrictInfo list \<Rightarrow> double \<times> int32" where
  "param_baserel_prediction env qc proot rel param_clauses =
     (let rel_oid = planner_rt_fetch_relid env (relid rel) proot;
          relid_list = (if OidIsValid rel_oid then [rel_oid] else [])
      in predict_for_relation env qc
           (param_baserel_clauses env proot rel param_clauses)
           (param_baserel_selectivities env proot rel param_clauses)
           relid_list)"

definition aqo_get_parameterized_baserel_size ::
  "card_env \<Rightarrow> QueryContextData \<Rightarrow> PlannerInfo \<Rightarrow> RelOptInfo \<Rightarrow> RestrictInfo list \<Rightarrow>
   card_globals \<Rightarrow> double \<times> card_globals" where
  "aqo_get_parameterized_baserel_size env qc proot rel param_clauses g =
     (if IsQueryDisabled env qc
      then (default_get_parameterized_baserel_size env proot rel param_clauses, g)
      else
        let g1 = (if use_aqo qc \<or> learn_aqo qc
                  then cache_all_selectivities env rel
                         (planner_rt_fetch_relid env (relid rel) proot)
                         (param_baserel_clauses env proot rel param_clauses)
                         (param_baserel_selectivities env proot rel param_clauses) g
                  else g)
        in
        if \<not> use_aqo qc
        then (default_get_parameterized_baserel_size env proot rel param_clauses, g1)
        else
          let (predicted, fss) = param_baserel_prediction env qc proot rel param_clauses;
              g2 = g1\<lparr>predicted_ppi_rows := predicted, fss_ppi_hash := double_of_int32 fss\<rparr>
          in if d_le (Finite 0) predicted
             then (predicted, g2)
             else (default_get_parameterized_baserel_size env proot rel param_clauses, g2))"

subsection \<open>\<^verbatim>\<open>aqo_set_joinrel_size_estimates\<close> (lines 285-345)\<close>

text \<open>The code after the label \<^verbatim>\<open>default_estimator\<close> (lines 340-344).\<close>

definition joinrel_default_estimator ::
  "card_env \<Rightarrow> PlannerInfo \<Rightarrow> RelOptInfo \<Rightarrow> RelOptInfo \<Rightarrow> RelOptInfo \<Rightarrow> SpecialJoinInfo \<Rightarrow>
   RestrictInfo list \<Rightarrow> RelOptInfo" where
  "joinrel_default_estimator env proot rel outer_rel inner_rel sjinfo restrictlist =
     default_set_joinrel_size_estimates env proot (rel\<lparr>predicted_cardinality := Finite (- 1)\<rparr>)
       outer_rel inner_rel sjinfo restrictlist"

text \<open>
  Lines 319-330 and 387-396: the lists of a join over the paths \<open>outer_node\<close> and
  \<open>inner_node\<close>, and the call of \<^verbatim>\<open>predict_for_relation\<close> with them.
\<close>

definition join_prediction ::
  "card_env \<Rightarrow> QueryContextData \<Rightarrow> PlannerInfo \<Rightarrow> RelOptInfo \<Rightarrow> PathNode \<Rightarrow> PathNode \<Rightarrow>
   SpecialJoinInfo \<Rightarrow> RestrictInfo list \<Rightarrow> double \<times> int32" where
  "join_prediction env qc proot rel outer_node inner_node sjinfo restrictlist =
     (let current_selectivities =
            get_selectivities env proot restrictlist 0 (jointype sjinfo) (Some sjinfo);
          relid_list = get_list_of_relids env proot (relids rel);
          (outer_clauses, outer_selectivities) = get_path_clauses env outer_node proot;
          (inner_clauses, inner_selectivities) = get_path_clauses env inner_node proot;
          allclauses = aqo_get_clauses env proot restrictlist @ (outer_clauses @ inner_clauses);
          selectivities = current_selectivities @ (outer_selectivities @ inner_selectivities)
      in predict_for_relation env qc allclauses selectivities relid_list)"

definition aqo_set_joinrel_size_estimates ::
  "card_env \<Rightarrow> QueryContextData \<Rightarrow> PlannerInfo \<Rightarrow> RelOptInfo \<Rightarrow> RelOptInfo \<Rightarrow> RelOptInfo \<Rightarrow>
   SpecialJoinInfo \<Rightarrow> RestrictInfo list \<Rightarrow> RelOptInfo" where
  "aqo_set_joinrel_size_estimates env qc proot rel outer_rel inner_rel sjinfo restrictlist =
     (if IsQueryDisabled env qc
      then joinrel_default_estimator env proot rel outer_rel inner_rel sjinfo restrictlist
      else if \<not> use_aqo qc
      then joinrel_default_estimator env proot rel outer_rel inner_rel sjinfo restrictlist
      else
        let (predicted, fss) =
              join_prediction env qc proot rel (cheapest_total_path outer_rel)
                (cheapest_total_path inner_rel) sjinfo restrictlist;
            rel1 = rel\<lparr>fss_hash := fss\<rparr>
        in if d_le (Finite 0) predicted
           then rel1\<lparr>predicted_cardinality := predicted, rows := predicted\<rparr>
           else joinrel_default_estimator env proot rel1 outer_rel inner_rel sjinfo restrictlist)"

subsection \<open>\<^verbatim>\<open>aqo_get_parameterized_joinrel_size\<close> (lines 352-408)\<close>

definition aqo_get_parameterized_joinrel_size ::
  "card_env \<Rightarrow> QueryContextData \<Rightarrow> PlannerInfo \<Rightarrow> RelOptInfo \<Rightarrow> Path \<Rightarrow> Path \<Rightarrow> SpecialJoinInfo \<Rightarrow>
   RestrictInfo list \<Rightarrow> card_globals \<Rightarrow> double \<times> card_globals" where
  "aqo_get_parameterized_joinrel_size env qc proot rel outer_path inner_path sjinfo clauses g =
     (if IsQueryDisabled env qc
      then (default_get_parameterized_joinrel_size env proot rel outer_path inner_path sjinfo
              clauses, g)
      else if \<not> use_aqo qc
      then (default_get_parameterized_joinrel_size env proot rel outer_path inner_path sjinfo
              clauses, g)
      else
        let (predicted, fss) =
              join_prediction env qc proot rel (path_node outer_path) (path_node inner_path)
                sjinfo clauses;
            g1 = g\<lparr>predicted_ppi_rows := predicted, fss_ppi_hash := double_of_int32 fss\<rparr>
        in if d_le (Finite 0) predicted
           then (predicted, g1)
           else (default_get_parameterized_joinrel_size env proot rel outer_path inner_path
                   sjinfo clauses, g1))"

subsection \<open>\<^verbatim>\<open>predict_num_groups\<close> and \<^verbatim>\<open>aqo_estimate_num_groups_hook\<close> (lines 410-486)\<close>

text \<open>Lines 419-431: the signature of the child.\<close>

definition child_fss_of :: "card_env \<Rightarrow> QueryContextData \<Rightarrow> PlannerInfo \<Rightarrow> Path \<Rightarrow> int32" where
  "child_fss_of env qc proot subpath =
     (if d_lt (Finite 0) (predicted_cardinality (parent subpath))
      then fss_hash (parent subpath)
      else
        let relid_list = get_list_of_relids env proot (relids (parent subpath));
            (clauses, selectivities) = get_path_clauses env (path_node subpath) proot
        in snd (predict_for_relation env qc clauses selectivities relid_list))"

definition predict_num_groups ::
  "card_env \<Rightarrow> QueryContextData \<Rightarrow> PlannerInfo \<Rightarrow> Path \<Rightarrow> Expr list \<Rightarrow> failure + double \<times> int32" where
  "predict_num_groups env qc proot subpath group_exprs =
     (let child_fss = child_fss_of env qc proot subpath;
          fss = get_grouped_exprs_hash env child_fss group_exprs
      in case load_fss env (fspace_hash qc) fss of
           None \<Rightarrow> Inr (Finite (- 1), fss)
         | Some (target, nrows) \<Rightarrow>
             if USE_ASSERT_CHECKING env \<and> nrows \<noteq> 1
             then Inl (Assert_failed ''rows == 1'')
             else
               let prediction = c_exp env target
               in Inr (if d_le prediction (Finite 0) then Finite (- 1) else prediction, fss))"

record num_groups_result =
  ng_value :: double
  ng_grouped_rel :: RelOptInfo
  ng_estinfo :: "EstimationInfo option"
  ng_warnings :: "string list"

definition aqo_estimate_num_groups_hook ::
  "card_env \<Rightarrow> QueryContextData \<Rightarrow> PlannerInfo \<Rightarrow> Expr list \<Rightarrow> Path \<Rightarrow> RelOptInfo \<Rightarrow>
   GroupingSets option \<Rightarrow> EstimationInfo option \<Rightarrow> failure + num_groups_result" where
  "aqo_estimate_num_groups_hook env qc proot groupExprs subpath grouped_rel pgset estinfo =
     (if \<not> use_aqo qc
      then Inr \<lparr>ng_value = default_estimate_num_groups env proot groupExprs subpath grouped_rel
                             pgset estinfo,
               ng_grouped_rel = grouped_rel, ng_estinfo = estinfo, ng_warnings = []\<rparr>
      else if pgset \<noteq> None \<or> groupExprs = []
      then Inr \<lparr>ng_value = default_estimate_num_groups env proot groupExprs subpath grouped_rel
                             pgset estinfo,
               ng_grouped_rel = grouped_rel, ng_estinfo = estinfo, ng_warnings = []\<rparr>
      else
        let warnings = (if prev_estimate_num_groups_hook env \<noteq> None
                        then [''AQO replaced another estimator of a groups number'']
                        else []);
            estinfo1 = (case estinfo of
                          Some _ \<Rightarrow> Some (EstimationInfo 0)
                        | None \<Rightarrow> None)
        in
        if groupExprs = []
        then Inr \<lparr>ng_value = Finite 1, ng_grouped_rel = grouped_rel, ng_estinfo = estinfo1,
                 ng_warnings = warnings\<rparr>
        else
          case predict_num_groups env qc proot subpath groupExprs of
            Inl f \<Rightarrow> Inl f
          | Inr (predicted, fss) \<Rightarrow>
              if d_lt (Finite 0) predicted
              then Inr \<lparr>ng_value = predicted,
                       ng_grouped_rel = grouped_rel\<lparr>predicted_cardinality := predicted,
                                                    rows := predicted,
                                                    fss_hash := fss\<rparr>,
                       ng_estinfo = estinfo1, ng_warnings = warnings\<rparr>
              else
                let grouped_rel1 = grouped_rel\<lparr>predicted_cardinality := Finite (- 1)\<rparr>
                in Inr \<lparr>ng_value = default_estimate_num_groups env proot groupExprs subpath
                                     grouped_rel1 pgset estinfo1,
                        ng_grouped_rel = grouped_rel1, ng_estinfo = estinfo1,
                        ng_warnings = warnings\<rparr>)"

section \<open>Concrete inputs\<close>

text \<open>
  Modelled from the spec: the macro \<^verbatim>\<open>IsQueryDisabled()\<close> for the concrete inputs: a
  context is fully disabled when all its flags are false, its planning start time is zero
  and its planning time is negative, which is the state \<^verbatim>\<open>disable_aqo_for_query\<close> sets
  and line 354 leaves.
\<close>

definition all_flags_off :: "QueryContextData \<Rightarrow> bool" where
  "all_flags_off qc =
     (\<not> learn_aqo qc \<and> \<not> use_aqo qc \<and> \<not> auto_tuning qc \<and> \<not> collect_stat qc \<and>
      \<not> adding_query qc \<and> \<not> explain_only qc \<and> start_planning_time qc = 0 \<and>
      d_lt (planning_time qc) (Finite 0))"

definition qc0 :: QueryContextData where
  "qc0 = \<lparr>query_hash = 0, learn_aqo = False, use_aqo = False, fspace_hash = 7,
          auto_tuning = False, collect_stat = False, adding_query = False,
          explain_only = False, start_planning_time = 0, planning_time = Finite (- 1)\<rparr>"

definition env0 :: planner_env where
  "env0 = \<lparr>IsQueryDisabled = all_flags_off, USE_ASSERT_CHECKING = False,
           creating_extension = False, aqo_extension_exists = True,
           IsInParallelMode = False, IsParallelWorker = False, RecoveryInProgress = False,
           aqo_mode = AQO_MODE_INTELLIGENT, force_collect_stat = False,
           aqo_profile_enable = 0, aqo_profile_classes = 0,
           application_name = ''psql'',
           IsCatalogRelation = (\<lambda>oid. oid < 16384),
           RelationGetRelationName = (\<lambda>oid. ''orders''),
           get_query_hash = (\<lambda>q text. 42),
           current_time = 1000,
           prev_planner_hook = None,
           standard_planner = (\<lambda>q text opts params. PlannedStmt 1)\<rparr>"

definition state0 :: aqo_state where
  "state0 = \<lparr>aqo_enabled = True, query_context = qc0, cur_classes = [],
             deactivated_queries = {}, aqo_queries = Map.empty,
             aqo_query_texts = Map.empty, trace = []\<rparr>"

text \<open>A knowledge base that holds the class 42 with all its flags off.\<close>

definition state_idle :: aqo_state where
  "state_idle = state0\<lparr>aqo_queries :=
     [42 \<mapsto> \<lparr>row_learn_aqo = False, row_use_aqo = False, row_fspace_hash = 7,
              row_auto_tuning = False\<rparr>]\<rparr>"

definition query0 :: Query where
  "query0 = Query CMD_SELECT [\<lparr>rtekind = RTE_RELATION, rte_relid = 16385\<rparr>] []"

text \<open>
  The double that \<^verbatim>\<open>log(37.0)\<close> is in binary64, 3.6109179126442243, and the values of
  \<^verbatim>\<open>exp\<close> of the C library at the inputs of the concrete cases: for \<^verbatim>\<open>log(37.0)\<close> it is
  the double below 37, \<^verbatim>\<open>37 - 2^(-47)\<close> (36.999999999999993); for \<open>-1000\<close> the result
  underflows to 0. The values at 0, at the infinities and at NaN are those of IEEE 754.
  No other input occurs in the concrete cases, and the table has NaN there.
\<close>

definition log_37 :: double where
  "log_37 = Finite (8131064282924989 / 2 ^ 51)"

definition exp_table :: "double \<Rightarrow> double" where
  "exp_table x =
     (case x of
        Finite r \<Rightarrow>
          if r = 8131064282924989 / 2 ^ 51 then Finite (37 - 1 / 2 ^ 47)
          else if r = - 1000 then Finite 0
          else if r = 0 then Finite 1
          else NaN
      | PosInf \<Rightarrow> PosInf
      | NegInf \<Rightarrow> Finite 0
      | NaN \<Rightarrow> NaN)"

text \<open>
  A knowledge base for the hooks: it predicts 120 rows with the signature 9 in the
  feature space 42 and refuses elsewhere; in the feature space 42 it holds the target
  \<^verbatim>\<open>log(37.0)\<close> for the grouped signature 6 and the target \<open>-1000\<close> for the grouped
  signature 10. The default estimators answer 1000.
\<close>

definition cenv0 :: card_env where
  "cenv0 = \<lparr>IsQueryDisabled = all_flags_off, USE_ASSERT_CHECKING = True,
            get_selectivities = (\<lambda>proot clauses varRelid jt sjinfo. map (\<lambda>c. Finite (1 / 2)) clauses),
            aqo_get_clauses = (\<lambda>proot clauses. clauses),
            planner_rt_fetch_relid = (\<lambda>rti proot. 16385),
            get_eclasses = (\<lambda>clauses. (0, [], [])),
            get_clause_hash = (\<lambda>e nargs args_hash eclass_hash. 5),
            get_list_of_relids = (\<lambda>proot ids. map (\<lambda>i. 16384 + of_nat i) ids),
            get_path_clauses = (\<lambda>p proot. ([], [])),
            predict_for_relation =
              (\<lambda>qc clauses sels rels. if fspace_hash qc = 42 then (Finite 120, 9) else (Finite (- 1), 9)),
            get_grouped_exprs_hash = (\<lambda>child_fss exprs. child_fss + 1),
            aqo_data = [(42, 6) \<mapsto> (log_37, 1), (42, 10) \<mapsto> (Finite (- 1000), 1)],
            c_exp = exp_table,
            prev_set_baserel_rows_estimate_hook = None,
            set_baserel_rows_estimate_standard = (\<lambda>proot rel. Finite 1000),
            prev_get_parameterized_baserel_size_hook = None,
            get_parameterized_baserel_size_standard = (\<lambda>proot rel pc. Finite 1000),
            prev_get_parameterized_joinrel_size_hook = None,
            get_parameterized_joinrel_size_standard = (\<lambda>proot rel op ip sj cl. Finite 1000),
            prev_set_joinrel_size_estimates_hook = None,
            set_joinrel_size_estimates_standard = (\<lambda>proot rel orel irel sj cl. Finite 1000),
            prev_estimate_num_groups_hook = None,
            estimate_num_groups = (\<lambda>proot exprs input_rows pgset estinfo. Finite 1000)\<rparr>"

definition qc_use :: QueryContextData where
  "qc_use = qc0\<lparr>query_hash := 42, fspace_hash := 42, use_aqo := True, learn_aqo := True\<rparr>"

definition rel0 :: RelOptInfo where
  "rel0 = \<lparr>relid = 1, relids = [1], rows = Finite 0,
           baserestrictinfo = [RestrictInfo (Expr 1)], cheapest_total_path = PathNode 1,
           predicted_cardinality = Finite (- 1), fss_hash = 0\<rparr>"

definition path0 :: Path where
  "path0 = \<lparr>path_node = PathNode 1,
            parent = rel0\<lparr>rows := Finite 120, predicted_cardinality := Finite 120, fss_hash := 5\<rparr>,
            path_rows = Finite 120\<rparr>"

definition sjinfo0 :: SpecialJoinInfo where
  "sjinfo0 = \<lparr>jointype = JOIN_INNER, sjinfo_node = 1\<rparr>"

definition globals0 :: card_globals where
  "globals0 = \<lparr>predicted_ppi_rows = Finite 0, fss_ppi_hash = Finite 0,
               selectivity_cache = Map.empty\<rparr>"

text \<open>
  A knowledge base that predicts 0 rows: with the signature 5 for a relation with
  clauses, with the signature 9 for an empty clause list.
\<close>

definition cenv_zero :: card_env where
  "cenv_zero = cenv0\<lparr>predict_for_relation :=
     (\<lambda>qc clauses sels rels. (Finite 0, if clauses = [] then 9 else 5))\<rparr>"

section \<open>Properties\<close>

subsection \<open>The stages of \<^verbatim>\<open>aqo_planner\<close>\<close>

lemma aqoIsEnabled_frame:
  "query_context (snd (aqoIsEnabled env s)) = query_context s"
  "cur_classes (snd (aqoIsEnabled env s)) = cur_classes s"
  "deactivated_queries (snd (aqoIsEnabled env s)) = deactivated_queries s"
  "aqo_queries (snd (aqoIsEnabled env s)) = aqo_queries s"
  "aqo_query_texts (snd (aqoIsEnabled env s)) = aqo_query_texts s"
  "trace (snd (aqoIsEnabled env s)) = trace s"
  by (simp_all add: aqoIsEnabled_def)

lemma classify_entry_fields:
  "query_context (classify_entry env parse qs st) =
     (query_context st)\<lparr>query_hash := get_query_hash env parse qs\<rparr>"
  "cur_classes (classify_entry env parse qs st) = cur_classes st @ [get_query_hash env parse qs]"
  "deactivated_queries (classify_entry env parse qs st) = deactivated_queries st"
  "aqo_queries (classify_entry env parse qs st) = aqo_queries st"
  "aqo_query_texts (classify_entry env parse qs st) = aqo_query_texts st"
  "trace (classify_entry env parse qs st) = trace st @ [Ev_selectivity_cache_clear]"
  by (simp_all add: classify_entry_def Let_def aqoIsEnabled_frame)

lemma aqo_planner_classify:
  assumes "\<not> fast_exit env parse qs st"
  shows "aqo_planner env parse qs co bp st =
     (let s3 = classify_entry env parse qs st in
      if aqo_mode env = AQO_MODE_DISABLED
      then ignore_query_settings env False parse qs co bp
             (s3\<lparr>query_context := disable_aqo_for_query (query_context s3)\<rparr>)
      else
        case aqo_queries st (get_query_hash env parse qs) of
          None \<Rightarrow>
            (case new_class_settings env (log_event (Ev_find_query (get_query_hash env parse qs)) s3) of
               (Some f, s5) \<Rightarrow> (Failed f, s5)
             | (None, s5) \<Rightarrow> ignore_query_settings env False parse qs co bp s5)
        | Some r \<Rightarrow>
            (case stored_class_settings env r (log_event (Ev_find_query (get_query_hash env parse qs)) s3) of
               (Some f, s5) \<Rightarrow> (Failed f, s5)
             | (None, s5) \<Rightarrow> ignore_query_settings env True parse qs co bp s5))"
proof -
  obtain en s where es: "aqoIsEnabled env st = (en, s)" by (cases "aqoIsEnabled env st")
  have fr: "deactivated_queries s = deactivated_queries st" "aqo_queries s = aqo_queries st"
    using aqoIsEnabled_frame[of env st] es by simp_all
  have frc: "set (cur_classes s) = set (cur_classes st)"
    using aqoIsEnabled_frame[of env st] es by simp
  from assms es have nb: "\<not> bypass_condition env en parse"
    and nd: "get_query_hash env parse qs \<notin> deactivated_queries st"
    and nc: "get_query_hash env parse qs \<notin> set (cur_classes st)"
    by (simp_all add: fast_exit_def query_is_deactivated_def)
  show ?thesis
    unfolding aqo_planner_def es
    using nb nd nc fr frc
    by (simp add: Let_def query_is_deactivated_def log_event_def classify_entry_def es
        find_query_def split: option.split)
qed

lemma register_class_frame:
  "query_context (register_class qs s) = query_context s"
  "cur_classes (register_class qs s) = cur_classes s"
  "deactivated_queries (register_class qs s) = deactivated_queries s"
  by (simp_all add: register_class_def Let_def log_event_def update_query_def
      add_query_text_def split: option.split)

lemma call_default_planner_frame:
  "query_context (snd (call_default_planner env parse qs co bp s)) = query_context s"
  "cur_classes (snd (call_default_planner env parse qs co bp s)) = cur_classes s"
  "deactivated_queries (snd (call_default_planner env parse qs co bp s)) = deactivated_queries s"
  "aqo_queries (snd (call_default_planner env parse qs co bp s)) = aqo_queries s"
  "aqo_query_texts (snd (call_default_planner env parse qs co bp s)) = aqo_query_texts s"
  "trace (snd (call_default_planner env parse qs co bp s)) = trace s @ [Ev_default_planner]"
  by (simp_all add: call_default_planner_def log_event_def split: option.split)

lemma ignore_query_settings_flags:
  "learn_aqo (query_context (snd (ignore_query_settings env st parse qs co bp s))) =
     learn_aqo (query_context s)"
  "use_aqo (query_context (snd (ignore_query_settings env st parse qs co bp s))) =
     use_aqo (query_context s)"
  "auto_tuning (query_context (snd (ignore_query_settings env st parse qs co bp s))) =
     auto_tuning (query_context s)"
  "adding_query (query_context (snd (ignore_query_settings env st parse qs co bp s))) =
     adding_query (query_context s)"
  "query_hash (query_context (snd (ignore_query_settings env st parse qs co bp s))) =
     query_hash (query_context s)"
  "collect_stat (query_context (snd (ignore_query_settings env st parse qs co bp s))) =
     (force_collect_stat env \<or> collect_stat (query_context s))"
  "fspace_hash (query_context (snd (ignore_query_settings env st parse qs co bp s))) =
     (if force_collect_stat env then query_hash (query_context s)
      else fspace_hash (query_context s))"
  by (simp_all add: ignore_query_settings_def Let_def call_default_planner_frame
      register_class_frame)

lemma new_class_settings_context:
  "aqo_mode env = AQO_MODE_INTELLIGENT \<Longrightarrow>
     new_class_settings env s =
       (None, s\<lparr>query_context := (query_context s)\<lparr>adding_query := True, learn_aqo := True,
          use_aqo := False, fspace_hash := query_hash (query_context s), auto_tuning := True,
          collect_stat := True\<rparr>\<rparr>)"
  "aqo_mode env = AQO_MODE_FORCED \<Longrightarrow>
     new_class_settings env s =
       (None, s\<lparr>query_context := (query_context s)\<lparr>adding_query := False, learn_aqo := True,
          use_aqo := True, auto_tuning := False, fspace_hash := 0, collect_stat := False\<rparr>\<rparr>)"
  "aqo_mode env = AQO_MODE_CONTROLLED \<or> aqo_mode env = AQO_MODE_FROZEN \<Longrightarrow>
     new_class_settings env s =
       (None, s\<lparr>query_context := (query_context s)\<lparr>adding_query := False, learn_aqo := False,
          use_aqo := False, auto_tuning := False, collect_stat := False\<rparr>\<rparr>)"
  "aqo_mode env = AQO_MODE_LEARN \<Longrightarrow>
     new_class_settings env s =
       (None, s\<lparr>query_context := (query_context s)\<lparr>adding_query := True, learn_aqo := True,
          use_aqo := True, fspace_hash := query_hash (query_context s), auto_tuning := False,
          collect_stat := True\<rparr>\<rparr>)"
  by (auto simp add: new_class_settings_def Let_def)

lemma aqo_planner_new_class:
  assumes "\<not> fast_exit env parse qs st"
    and "aqo_queries st (get_query_hash env parse qs) = None"
    and "aqo_mode env \<noteq> AQO_MODE_DISABLED"
    and "new_class_settings env
           (log_event (Ev_find_query (get_query_hash env parse qs))
              (classify_entry env parse qs st)) = (None, s5)"
  shows "aqo_planner env parse qs co bp st =
           ignore_query_settings env False parse qs co bp s5"
  using assms by (simp add: aqo_planner_classify Let_def)

lemma call_default_planner_plan:
  "fst (call_default_planner env parse qs co bp s) = Planned (default_plan env parse qs co bp)"
  by (simp add: call_default_planner_def default_plan_def split: option.split)

lemma register_class_effect:
  "trace (register_class qs s) = trace s @ registration_events qs (query_context s)"
  "aqo_queries (register_class qs s) =
     (aqo_queries s)(query_hash (query_context s) \<mapsto>
        \<lparr>row_learn_aqo = learn_aqo (query_context s), row_use_aqo = use_aqo (query_context s),
         row_fspace_hash = fspace_hash (query_context s),
         row_auto_tuning = auto_tuning (query_context s)\<rparr>)"
  "aqo_query_texts (register_class qs s) =
     (case qs of Some text \<Rightarrow> (aqo_query_texts s)(query_hash (query_context s) \<mapsto> text)
      | None \<Rightarrow> aqo_query_texts s)"
  by (simp_all add: register_class_def Let_def log_event_def update_query_def
      add_query_text_def registration_events_def init_lock_tag_def split: option.split)

lemma ignore_query_settings_plan:
  "fst (ignore_query_settings env st parse qs co bp s) = Planned (default_plan env parse qs co bp)"
  by (simp add: ignore_query_settings_def Let_def call_default_planner_plan)

lemma ignore_query_settings_effect:
  "trace (snd (ignore_query_settings env st parse qs co bp s)) =
     trace s @
     (if \<not> st \<and> (adding_query (query_context s) \<or> force_collect_stat env)
      then registration_events qs (query_context s) else []) @ [Ev_default_planner]"
  "aqo_queries (snd (ignore_query_settings env st parse qs co bp s)) =
     (if \<not> st \<and> (adding_query (query_context s) \<or> force_collect_stat env)
      then (aqo_queries s)(query_hash (query_context s) \<mapsto>
        \<lparr>row_learn_aqo = learn_aqo (query_context s), row_use_aqo = use_aqo (query_context s),
         row_fspace_hash = fspace_hash (query_context s),
         row_auto_tuning = auto_tuning (query_context s)\<rparr>)
      else aqo_queries s)"
  "aqo_query_texts (snd (ignore_query_settings env st parse qs co bp s)) =
     (if \<not> st \<and> (adding_query (query_context s) \<or> force_collect_stat env)
      then (case qs of Some text \<Rightarrow> (aqo_query_texts s)(query_hash (query_context s) \<mapsto> text)
            | None \<Rightarrow> aqo_query_texts s)
      else aqo_query_texts s)"
  "deactivated_queries (snd (ignore_query_settings env st parse qs co bp s)) = deactivated_queries s"
  "cur_classes (snd (ignore_query_settings env st parse qs co bp s)) = cur_classes s"
  by (simp_all add: ignore_query_settings_def Let_def call_default_planner_frame
      register_class_frame register_class_effect)

lemma new_class_settings_frame:
  "trace (snd (new_class_settings env s)) = trace s"
  "aqo_queries (snd (new_class_settings env s)) = aqo_queries s"
  "aqo_query_texts (snd (new_class_settings env s)) = aqo_query_texts s"
  "deactivated_queries (snd (new_class_settings env s)) = deactivated_queries s"
  "cur_classes (snd (new_class_settings env s)) = cur_classes s"
  "query_hash (query_context (snd (new_class_settings env s))) = query_hash (query_context s)"
  by (simp_all add: new_class_settings_def Let_def split: AQO_MODE.split)

lemma new_class_settings_ok:
  "recognized_mode (aqo_mode env) \<Longrightarrow> aqo_mode env \<noteq> AQO_MODE_DISABLED \<Longrightarrow>
     fst (new_class_settings env s) = None"
  by (cases "aqo_mode env") (simp_all add: new_class_settings_def Let_def)

lemma new_class_settings_adding:
  "recognized_mode (aqo_mode env) \<Longrightarrow> aqo_mode env \<noteq> AQO_MODE_DISABLED \<Longrightarrow>
     adding_query (query_context (snd (new_class_settings env s))) =
       (aqo_mode env = AQO_MODE_INTELLIGENT \<or> aqo_mode env = AQO_MODE_LEARN)"
  by (cases "aqo_mode env") (simp_all add: new_class_settings_def Let_def)

lemma stored_class_settings_frame:
  "aqo_queries (snd (stored_class_settings env r s)) = aqo_queries s"
  "aqo_query_texts (snd (stored_class_settings env r s)) = aqo_query_texts s"
  "cur_classes (snd (stored_class_settings env r s)) = cur_classes s"
  "query_hash (query_context (snd (stored_class_settings env r s))) = query_hash (query_context s)"
  "adding_query (query_context (snd (stored_class_settings env r s))) = False"
  by (simp_all add: stored_class_settings_def Let_def add_deactivated_query_def log_event_def
      split: AQO_MODE.split)

lemma stored_class_settings_ok:
  "recognized_mode (aqo_mode env) \<Longrightarrow> fst (stored_class_settings env r s) = None"
  by (cases "aqo_mode env") (simp_all add: stored_class_settings_def Let_def)

lemma stored_class_settings_deactivation:
  "deactivated_queries (snd (stored_class_settings env r s)) =
     (if \<not> row_learn_aqo r \<and> \<not> row_use_aqo r \<and> \<not> row_auto_tuning r \<and> \<not> force_collect_stat env
      then insert (query_hash (query_context s)) (deactivated_queries s)
      else deactivated_queries s)"
  "trace (snd (stored_class_settings env r s)) =
     trace s @
     (if \<not> row_learn_aqo r \<and> \<not> row_use_aqo r \<and> \<not> row_auto_tuning r \<and> \<not> force_collect_stat env
      then [Ev_add_deactivated_query (query_hash (query_context s))] else [])"
  by (simp_all add: stored_class_settings_def Let_def add_deactivated_query_def log_event_def
      split: AQO_MODE.split)

lemma aqo_planner_fast_exit:
  assumes "fast_exit env parse qs st"
  shows "fst (aqo_planner env parse qs co bp st) = Planned (default_plan env parse qs co bp)"
    and "learn_aqo (query_context (snd (aqo_planner env parse qs co bp st))) = False"
    and "use_aqo (query_context (snd (aqo_planner env parse qs co bp st))) = False"
    and "auto_tuning (query_context (snd (aqo_planner env parse qs co bp st))) = False"
    and "collect_stat (query_context (snd (aqo_planner env parse qs co bp st))) = False"
    and "adding_query (query_context (snd (aqo_planner env parse qs co bp st))) = False"
    and "explain_only (query_context (snd (aqo_planner env parse qs co bp st))) = False"
    and "cur_classes (snd (aqo_planner env parse qs co bp st)) = cur_classes st"
    and "deactivated_queries (snd (aqo_planner env parse qs co bp st)) = deactivated_queries st"
    and "aqo_queries (snd (aqo_planner env parse qs co bp st)) = aqo_queries st"
    and "aqo_query_texts (snd (aqo_planner env parse qs co bp st)) = aqo_query_texts st"
    and "trace (snd (aqo_planner env parse qs co bp st)) =
           trace st @
           (if bypass_condition env (fst (aqoIsEnabled env st)) parse then []
            else [Ev_selectivity_cache_clear]) @ [Ev_default_planner]"
proof -
  obtain en s where es: "aqoIsEnabled env st = (en, s)" by (cases "aqoIsEnabled env st")
  have fr: "deactivated_queries s = deactivated_queries st" "aqo_queries s = aqo_queries st"
    "cur_classes s = cur_classes st" "aqo_query_texts s = aqo_query_texts st" "trace s = trace st"
    using aqoIsEnabled_frame[of env st] es by simp_all
  have eq: "aqo_planner env parse qs co bp st =
     (if bypass_condition env en parse
      then call_default_planner env parse qs co bp
             (s\<lparr>query_context := disable_aqo_for_query (query_context s)\<rparr>)
      else call_default_planner env parse qs co bp
             (s\<lparr>trace := trace s @ [Ev_selectivity_cache_clear],
                query_context := disable_aqo_for_query
                  ((query_context s)\<lparr>query_hash := get_query_hash env parse qs\<rparr>)\<rparr>))"
    using assms es fr(1,3)
    by (auto simp add: aqo_planner_def fast_exit_def Let_def query_is_deactivated_def log_event_def)
  show "fst (aqo_planner env parse qs co bp st) = Planned (default_plan env parse qs co bp)"
    by (simp add: eq call_default_planner_plan)
  show "learn_aqo (query_context (snd (aqo_planner env parse qs co bp st))) = False"
    "use_aqo (query_context (snd (aqo_planner env parse qs co bp st))) = False"
    "auto_tuning (query_context (snd (aqo_planner env parse qs co bp st))) = False"
    "collect_stat (query_context (snd (aqo_planner env parse qs co bp st))) = False"
    "adding_query (query_context (snd (aqo_planner env parse qs co bp st))) = False"
    "explain_only (query_context (snd (aqo_planner env parse qs co bp st))) = False"
    by (simp_all add: eq call_default_planner_frame disable_aqo_for_query_def)
  show "cur_classes (snd (aqo_planner env parse qs co bp st)) = cur_classes st"
    "deactivated_queries (snd (aqo_planner env parse qs co bp st)) = deactivated_queries st"
    "aqo_queries (snd (aqo_planner env parse qs co bp st)) = aqo_queries st"
    "aqo_query_texts (snd (aqo_planner env parse qs co bp st)) = aqo_query_texts st"
    by (simp_all add: eq call_default_planner_frame fr)
  show "trace (snd (aqo_planner env parse qs co bp st)) =
           trace st @
           (if bypass_condition env (fst (aqoIsEnabled env st)) parse then []
            else [Ev_selectivity_cache_clear]) @ [Ev_default_planner]"
    by (simp add: eq call_default_planner_frame fr es)
qed

lemma aqo_planner_settled:
  assumes "\<not> fast_exit env parse qs st" and "recognized_mode (aqo_mode env)"
  shows "aqo_planner env parse qs co bp st =
           ignore_query_settings env (query_is_stored_at_label env parse qs st) parse qs co bp
             (settled_state env parse qs st)"
proof (cases "aqo_mode env = AQO_MODE_DISABLED")
  case True
  then show ?thesis
    using assms by (simp add: aqo_planner_classify settled_state_def Let_def query_is_stored_at_label_def)
next
  case False
  show ?thesis
  proof (cases "aqo_queries st (get_query_hash env parse qs)")
    case None
    let ?s4 = "log_event (Ev_find_query (get_query_hash env parse qs)) (classify_entry env parse qs st)"
    obtain s5 where "new_class_settings env ?s4 = (None, s5)"
      using new_class_settings_ok[OF assms(2) False, of ?s4]
      by (cases "new_class_settings env ?s4") simp
    then show ?thesis
      using assms False None
      by (simp add: aqo_planner_classify settled_state_def Let_def query_is_stored_at_label_def)
  next
    case (Some r)
    let ?s4 = "log_event (Ev_find_query (get_query_hash env parse qs)) (classify_entry env parse qs st)"
    obtain s5 where "stored_class_settings env r ?s4 = (None, s5)"
      using stored_class_settings_ok[OF assms(2), of r ?s4]
      by (cases "stored_class_settings env r ?s4") simp
    then show ?thesis
      using assms False Some
      by (simp add: aqo_planner_classify settled_state_def Let_def query_is_stored_at_label_def)
  qed
qed

lemma settled_state_hash:
  "query_hash (query_context (settled_state env parse qs st)) = get_query_hash env parse qs"
  by (simp add: settled_state_def Let_def classify_entry_fields disable_aqo_for_query_def
      new_class_settings_frame stored_class_settings_frame log_event_def split: option.split)

lemma settled_state_frame:
  "aqo_queries (settled_state env parse qs st) = aqo_queries st"
  "aqo_query_texts (settled_state env parse qs st) = aqo_query_texts st"
  "cur_classes (settled_state env parse qs st) = cur_classes st @ [get_query_hash env parse qs]"
  by (simp_all add: settled_state_def Let_def classify_entry_fields
      new_class_settings_frame stored_class_settings_frame log_event_def split: option.split)

lemma settled_state_trace:
  "\<exists>pre. trace (settled_state env parse qs st) = trace st @ pre \<and>
         set pre \<subseteq> {Ev_selectivity_cache_clear, Ev_find_query (get_query_hash env parse qs),
                    Ev_add_deactivated_query (get_query_hash env parse qs)} \<and>
         (\<not> query_is_stored_at_label env parse qs st \<longrightarrow>
            set pre \<subseteq> {Ev_selectivity_cache_clear, Ev_find_query (get_query_hash env parse qs)})"
  by (auto simp add: settled_state_def Let_def classify_entry_fields query_is_stored_at_label_def
      new_class_settings_frame stored_class_settings_frame stored_class_settings_deactivation
      log_event_def split: option.split)

lemma settled_state_adding:
  assumes "recognized_mode (aqo_mode env)"
  shows "adding_query (query_context (settled_state env parse qs st)) =
           (aqo_mode env \<noteq> AQO_MODE_DISABLED \<and>
            aqo_queries st (get_query_hash env parse qs) = None \<and>
            (aqo_mode env = AQO_MODE_INTELLIGENT \<or> aqo_mode env = AQO_MODE_LEARN))"
  using assms
  by (auto simp add: settled_state_def Let_def classify_entry_fields disable_aqo_for_query_def
      new_class_settings_adding stored_class_settings_frame split: option.split)

lemma new_events_append: "trace s' = trace s @ evs \<Longrightarrow> new_events s s' = evs"
  by (simp add: new_events_def)

lemma update_query_in_registration:
  "Ev_update_query (query_hash qc) (fspace_hash qc) (learn_aqo qc) (use_aqo qc) (auto_tuning qc)
     \<in> set (registration_events qs qc)"
  by (simp add: registration_events_def)

lemma aqo_planner_slow_cases:
  assumes "\<not> fast_exit env parse qs st"
  shows "snd (aqo_planner env parse qs co bp st) = settled_state env parse qs st \<or>
         snd (aqo_planner env parse qs co bp st) =
           snd (ignore_query_settings env (query_is_stored_at_label env parse qs st)
                  parse qs co bp (settled_state env parse qs st))"
proof (cases "aqo_mode env = AQO_MODE_DISABLED")
  case True
  then show ?thesis
    using assms by (simp add: aqo_planner_classify settled_state_def Let_def query_is_stored_at_label_def)
next
  case False
  let ?s4 = "log_event (Ev_find_query (get_query_hash env parse qs)) (classify_entry env parse qs st)"
  show ?thesis
  proof (cases "aqo_queries st (get_query_hash env parse qs)")
    case None
    obtain f s5 where "new_class_settings env ?s4 = (f, s5)"
      by (cases "new_class_settings env ?s4")
    then show ?thesis
      using assms False None
      by (cases f) (simp_all add: aqo_planner_classify settled_state_def Let_def
          query_is_stored_at_label_def)
  next
    case (Some r)
    obtain f s5 where "stored_class_settings env r ?s4 = (f, s5)"
      by (cases "stored_class_settings env r ?s4")
    then show ?thesis
      using assms False Some
      by (cases f) (simp_all add: aqo_planner_classify settled_state_def Let_def
          query_is_stored_at_label_def)
  qed
qed

lemma settled_state_deactivated:
  "deactivated_queries (settled_state env parse qs st) =
     (case aqo_queries st (get_query_hash env parse qs) of
        None \<Rightarrow> deactivated_queries st
      | Some r \<Rightarrow>
          if aqo_mode env \<noteq> AQO_MODE_DISABLED \<and> \<not> row_learn_aqo r \<and> \<not> row_use_aqo r \<and>
             \<not> row_auto_tuning r \<and> \<not> force_collect_stat env
          then insert (get_query_hash env parse qs) (deactivated_queries st)
          else deactivated_queries st)"
  by (simp add: settled_state_def Let_def classify_entry_fields
      new_class_settings_frame stored_class_settings_deactivation log_event_def
      split: option.split)

lemma aqo_planner_deactivated:
  assumes "\<not> fast_exit env parse qs st"
  shows "deactivated_queries (snd (aqo_planner env parse qs co bp st)) =
           deactivated_queries (settled_state env parse qs st)"
  using aqo_planner_slow_cases[OF assms, of co bp]
  by (auto simp add: ignore_query_settings_effect)

lemma aqo_planner_deactivated_mono:
  "deactivated_queries st \<subseteq> deactivated_queries (snd (aqo_planner env parse qs co bp st))"
proof (cases "fast_exit env parse qs st")
  case True
  then show ?thesis by (simp add: aqo_planner_fast_exit)
next
  case False
  then show ?thesis
    by (auto simp add: aqo_planner_deactivated settled_state_deactivated split: option.split)
qed

lemma aqo_planner_slow_events:
  assumes "\<not> fast_exit env parse qs st" and "recognized_mode (aqo_mode env)"
  shows "\<exists>pre. new_events st (snd (aqo_planner env parse qs co bp st)) =
           pre @
           (if \<not> query_is_stored_at_label env parse qs st \<and>
               (adding_query (query_context (snd (aqo_planner env parse qs co bp st))) \<or>
                force_collect_stat env)
            then registration_events qs (query_context (settled_state env parse qs st))
            else []) @ [Ev_default_planner] \<and>
           set pre \<subseteq> {Ev_selectivity_cache_clear, Ev_find_query (get_query_hash env parse qs),
                      Ev_add_deactivated_query (get_query_hash env parse qs)} \<and>
           (\<not> query_is_stored_at_label env parse qs st \<longrightarrow>
              set pre \<subseteq> {Ev_selectivity_cache_clear, Ev_find_query (get_query_hash env parse qs)})"
proof -
  obtain pre where pre: "trace (settled_state env parse qs st) = trace st @ pre"
    "set pre \<subseteq> {Ev_selectivity_cache_clear, Ev_find_query (get_query_hash env parse qs),
                    Ev_add_deactivated_query (get_query_hash env parse qs)}"
    "\<not> query_is_stored_at_label env parse qs st \<longrightarrow>
            set pre \<subseteq> {Ev_selectivity_cache_clear, Ev_find_query (get_query_hash env parse qs)}"
    using settled_state_trace[of env parse qs st] by blast
  have "trace (snd (aqo_planner env parse qs co bp st)) =
          trace st @ (pre @
           (if \<not> query_is_stored_at_label env parse qs st \<and>
               (adding_query (query_context (snd (aqo_planner env parse qs co bp st))) \<or>
                force_collect_stat env)
            then registration_events qs (query_context (settled_state env parse qs st))
            else []) @ [Ev_default_planner])"
    using assms pre(1)
    by (simp add: aqo_planner_settled ignore_query_settings_effect ignore_query_settings_flags)
  from new_events_append[OF this] pre(2,3) show ?thesis by blast
qed

subsection \<open>The estimation hooks\<close>

lemma hooks_default_when_unused:
  assumes "\<not> use_aqo qc"
  shows "aqo_set_baserel_rows_estimate cenv qc proot rel = baserel_default_estimator cenv proot rel"
    and "\<not> learn_aqo qc \<Longrightarrow> aqo_get_parameterized_baserel_size cenv qc proot rel param_clauses g =
           (default_get_parameterized_baserel_size cenv proot rel param_clauses, g)"
    and "aqo_set_joinrel_size_estimates cenv qc proot rel outer_rel inner_rel sjinfo restrictlist =
           joinrel_default_estimator cenv proot rel outer_rel inner_rel sjinfo restrictlist"
    and "aqo_get_parameterized_joinrel_size cenv qc proot rel outer_path inner_path sjinfo clauses g =
           (default_get_parameterized_joinrel_size cenv proot rel outer_path inner_path sjinfo
              clauses, g)"
    and "aqo_estimate_num_groups_hook cenv qc proot groupExprs subpath grouped_rel pgset estinfo =
           Inr \<lparr>ng_value = default_estimate_num_groups cenv proot groupExprs subpath grouped_rel
                             pgset estinfo,
               ng_grouped_rel = grouped_rel, ng_estinfo = estinfo, ng_warnings = []\<rparr>"
  using assms
  by (simp_all add: aqo_set_baserel_rows_estimate_def aqo_get_parameterized_baserel_size_def
      aqo_set_joinrel_size_estimates_def aqo_get_parameterized_joinrel_size_def
      aqo_estimate_num_groups_hook_def Let_def)

lemma default_set_baserel_rows_estimate_frame:
  "relid (default_set_baserel_rows_estimate env proot rel) = relid rel"
  "baserestrictinfo (default_set_baserel_rows_estimate env proot rel) = baserestrictinfo rel"
  "fss_hash (default_set_baserel_rows_estimate env proot rel) = fss_hash rel"
  "predicted_cardinality (default_set_baserel_rows_estimate env proot rel) = predicted_cardinality rel"
  by (simp_all add: default_set_baserel_rows_estimate_def split: option.split)

lemma baserel_prediction_cong:
  "relid r2 = relid r1 \<Longrightarrow> baserestrictinfo r2 = baserestrictinfo r1 \<Longrightarrow>
     baserel_prediction env qc proot r2 = baserel_prediction env qc proot r1"
  by (simp add: baserel_prediction_def)

lemma aqo_set_baserel_rows_estimate_frame:
  "relid (aqo_set_baserel_rows_estimate env qc proot rel) = relid rel"
  "baserestrictinfo (aqo_set_baserel_rows_estimate env qc proot rel) = baserestrictinfo rel"
  by (simp_all add: aqo_set_baserel_rows_estimate_def baserel_default_estimator_def Let_def
      split_beta default_set_baserel_rows_estimate_frame)

lemma aqo_set_baserel_rows_estimate_result:
  "predicted_cardinality (aqo_set_baserel_rows_estimate env qc proot rel) =
     (if \<not> IsQueryDisabled env qc \<and> use_aqo qc \<and>
         d_le (Finite 0) (fst (baserel_prediction env qc proot rel))
      then fst (baserel_prediction env qc proot rel) else Finite (- 1))"
  "fss_hash (aqo_set_baserel_rows_estimate env qc proot rel) =
     (if \<not> IsQueryDisabled env qc \<and> use_aqo qc
      then snd (baserel_prediction env qc proot rel) else fss_hash rel)"
  by (simp_all add: aqo_set_baserel_rows_estimate_def baserel_default_estimator_def Let_def
      split_beta default_set_baserel_rows_estimate_frame)

lemma refusal_sentinel_positive:
  "d_lt (Finite 0) (if d_le x (Finite 0) then Finite (- 1) else x) = d_lt (Finite 0) x"
  by (cases x) auto

lemma predict_num_groups_found:
  assumes "load_fss env (fspace_hash qc)
             (get_grouped_exprs_hash env (child_fss_of env qc proot subpath) groupExprs) =
           Some (target, nrows)"
    and "USE_ASSERT_CHECKING env \<longrightarrow> nrows = 1"
  shows "predict_num_groups env qc proot subpath groupExprs =
           Inr (if d_le (c_exp env target) (Finite 0) then Finite (- 1) else c_exp env target,
                get_grouped_exprs_hash env (child_fss_of env qc proot subpath) groupExprs)"
  using assms by (auto simp add: predict_num_groups_def Let_def)

subsection \<open>Facts about the concrete inputs\<close>

lemmas fixture_defs = env0_def state0_def query0_def qc0_def all_flags_off_def

lemma fixture_no_fast_exit:
  "m \<noteq> AQO_MODE_DISABLED \<Longrightarrow> \<not> fast_exit (env0\<lparr>aqo_mode := m\<rparr>) query0 qs state0"
  by (simp add: fast_exit_def bypass_condition_def aqoIsEnabled_def fixture_defs
      isQueryUsingSystemRelation_def IsAQORelation_def query_is_deactivated_def)

lemma fixture_hash: "get_query_hash env0 q qs = 42"
  by (simp add: env0_def)

lemma fixture_new: "aqo_queries state0 h = None"
  by (simp add: state0_def)

lemma fixture_plan0: "default_plan env0 q qs co bp = PlannedStmt 1"
  by (simp add: default_plan_def env0_def)

lemma fixture_no_fast_exit_forced_collect:
  "\<not> fast_exit (env0\<lparr>aqo_mode := m, force_collect_stat := True\<rparr>) query0 qs state0"
  by (simp add: fast_exit_def bypass_condition_def aqoIsEnabled_def fixture_defs
      isQueryUsingSystemRelation_def IsAQORelation_def query_is_deactivated_def)

lemma fixture_idle_no_fast_exit: "\<not> fast_exit env0 query0 qs state_idle"
  by (simp add: fast_exit_def bypass_condition_def aqoIsEnabled_def fixture_defs state_idle_def
      isQueryUsingSystemRelation_def IsAQORelation_def query_is_deactivated_def)

lemma fixture_qc_use:
  "\<not> IsQueryDisabled cenv0 (qc_use\<lparr>fspace_hash := f\<rparr>)" "use_aqo (qc_use\<lparr>fspace_hash := f\<rparr>)"
  "\<not> IsQueryDisabled cenv0 qc_use" "use_aqo qc_use" "fspace_hash qc_use = 42"
  by (simp_all add: cenv0_def qc_use_def qc0_def all_flags_off_def)

lemma fixture_predictions:
  "baserel_prediction cenv0 qc_use proot rel = (Finite 120, 9)"
  "baserel_prediction cenv0 (qc_use\<lparr>fspace_hash := 7\<rparr>) proot rel = (Finite (- 1), 9)"
  "param_baserel_prediction cenv0 qc_use proot rel pc = (Finite 120, 9)"
  "param_baserel_prediction cenv0 (qc_use\<lparr>fspace_hash := 7\<rparr>) proot rel pc = (Finite (- 1), 9)"
  "join_prediction cenv0 qc_use proot rel n1 n2 sj cl = (Finite 120, 9)"
  "join_prediction cenv0 (qc_use\<lparr>fspace_hash := 7\<rparr>) proot rel n1 n2 sj cl = (Finite (- 1), 9)"
  by (simp_all add: baserel_prediction_def param_baserel_prediction_def join_prediction_def
      cenv0_def qc_use_def qc0_def Let_def)

lemma fixture_defaults:
  "rows (default_set_baserel_rows_estimate cenv0 proot rel) = Finite 1000"
  "default_get_parameterized_baserel_size cenv0 proot rel pc = Finite 1000"
  "rows (default_set_joinrel_size_estimates cenv0 proot rel orel irel sj cl) = Finite 1000"
  "default_get_parameterized_joinrel_size cenv0 proot rel opath ipath sj cl = Finite 1000"
  "default_estimate_num_groups cenv0 proot exprs subpath grel pgset estinfo = Finite 1000"
  by (simp_all add: default_set_baserel_rows_estimate_def
      default_get_parameterized_baserel_size_def default_set_joinrel_size_estimates_def
      default_get_parameterized_joinrel_size_def default_estimate_num_groups_def cenv0_def)

lemma fixture_path0:
  "d_lt (Finite 0) (predicted_cardinality (parent path0))" "fss_hash (parent path0) = 5"
  "\<not> d_lt (Finite 0) (predicted_cardinality (parent (path0\<lparr>parent := rel0\<rparr>)))"
  by (simp_all add: path0_def rel0_def)

subsection \<open>Adoption of a prediction\<close>

text \<open>
  C1. In each of the four entry points (base relation, parameterized base relation, join
  relation, parameterized join relation), when the query is not disabled and \<open>use_aqo\<close> is
  set, the value that \<^verbatim>\<open>predict_for_relation\<close> returns is adopted as the row count if and
  only if it is \<open>\<ge> 0\<close>: the two relation hooks then store it in \<open>rows\<close> and in
  \<open>predicted_cardinality\<close>, the two parameterized hooks return it. A negative value (and
  NaN) is never adopted: the result is the value of the default estimator, and the relation
  hooks set \<open>predicted_cardinality\<close> to \<open>-1\<close>.
\<close>

theorem prediction_adopted_iff_nonnegative:
  assumes "\<not> IsQueryDisabled env qc" and "use_aqo qc"
  shows
    "aqo_set_baserel_rows_estimate env qc proot rel =
       (if d_le (Finite 0) (fst (baserel_prediction env qc proot rel))
        then rel\<lparr>fss_hash := snd (baserel_prediction env qc proot rel),
                 rows := fst (baserel_prediction env qc proot rel),
                 predicted_cardinality := fst (baserel_prediction env qc proot rel)\<rparr>
        else default_set_baserel_rows_estimate env proot
               (rel\<lparr>fss_hash := snd (baserel_prediction env qc proot rel),
                    predicted_cardinality := Finite (- 1)\<rparr>)) \<and>
     fst (aqo_get_parameterized_baserel_size env qc proot rel param_clauses g) =
       (if d_le (Finite 0) (fst (param_baserel_prediction env qc proot rel param_clauses))
        then fst (param_baserel_prediction env qc proot rel param_clauses)
        else default_get_parameterized_baserel_size env proot rel param_clauses) \<and>
     aqo_set_joinrel_size_estimates env qc proot rel outer_rel inner_rel sjinfo restrictlist =
       (if d_le (Finite 0)
             (fst (join_prediction env qc proot rel (cheapest_total_path outer_rel)
                     (cheapest_total_path inner_rel) sjinfo restrictlist))
        then rel\<lparr>fss_hash := snd (join_prediction env qc proot rel (cheapest_total_path outer_rel)
                                   (cheapest_total_path inner_rel) sjinfo restrictlist),
                 predicted_cardinality :=
                   fst (join_prediction env qc proot rel (cheapest_total_path outer_rel)
                          (cheapest_total_path inner_rel) sjinfo restrictlist),
                 rows := fst (join_prediction env qc proot rel (cheapest_total_path outer_rel)
                                (cheapest_total_path inner_rel) sjinfo restrictlist)\<rparr>
        else default_set_joinrel_size_estimates env proot
               (rel\<lparr>fss_hash := snd (join_prediction env qc proot rel (cheapest_total_path outer_rel)
                                      (cheapest_total_path inner_rel) sjinfo restrictlist),
                    predicted_cardinality := Finite (- 1)\<rparr>)
               outer_rel inner_rel sjinfo restrictlist) \<and>
     fst (aqo_get_parameterized_joinrel_size env qc proot rel outer_path inner_path sjinfo
            restrictlist g) =
       (if d_le (Finite 0)
             (fst (join_prediction env qc proot rel (path_node outer_path) (path_node inner_path)
                     sjinfo restrictlist))
        then fst (join_prediction env qc proot rel (path_node outer_path) (path_node inner_path)
                    sjinfo restrictlist)
        else default_get_parameterized_joinrel_size env proot rel outer_path inner_path sjinfo
               restrictlist)"
  using assms
  by (simp add: aqo_set_baserel_rows_estimate_def aqo_get_parameterized_baserel_size_def
      aqo_set_joinrel_size_estimates_def aqo_get_parameterized_joinrel_size_def
      baserel_default_estimator_def joinrel_default_estimator_def Let_def split_beta)

theorem prediction_adopted_iff_nonnegative_witness:
  "\<not> IsQueryDisabled cenv0 qc_use \<and> use_aqo qc_use \<and>
   rows (aqo_set_baserel_rows_estimate cenv0 qc_use (PlannerInfo 0) rel0) = Finite 120 \<and>
   fst (aqo_get_parameterized_baserel_size cenv0 qc_use (PlannerInfo 0) rel0 [] globals0) = Finite 120 \<and>
   rows (aqo_set_joinrel_size_estimates cenv0 qc_use (PlannerInfo 0) rel0 rel0 rel0 sjinfo0 []) =
     Finite 120 \<and>
   fst (aqo_get_parameterized_joinrel_size cenv0 qc_use (PlannerInfo 0) rel0 path0 path0 sjinfo0 []
          globals0) = Finite 120 \<and>
   \<not> IsQueryDisabled cenv0 (qc_use\<lparr>fspace_hash := 7\<rparr>) \<and> use_aqo (qc_use\<lparr>fspace_hash := 7\<rparr>) \<and>
   rows (aqo_set_baserel_rows_estimate cenv0 (qc_use\<lparr>fspace_hash := 7\<rparr>) (PlannerInfo 0) rel0) =
     Finite 1000 \<and>
   fst (aqo_get_parameterized_baserel_size cenv0 (qc_use\<lparr>fspace_hash := 7\<rparr>) (PlannerInfo 0) rel0 []
          globals0) = Finite 1000 \<and>
   rows (aqo_set_joinrel_size_estimates cenv0 (qc_use\<lparr>fspace_hash := 7\<rparr>) (PlannerInfo 0) rel0 rel0
           rel0 sjinfo0 []) = Finite 1000 \<and>
   fst (aqo_get_parameterized_joinrel_size cenv0 (qc_use\<lparr>fspace_hash := 7\<rparr>) (PlannerInfo 0) rel0
          path0 path0 sjinfo0 [] globals0) = Finite 1000"
  using
    prediction_adopted_iff_nonnegative[OF fixture_qc_use(3,4), of "PlannerInfo 0" rel0 "[]" globals0
      rel0 rel0 sjinfo0 "[]" path0 path0]
    prediction_adopted_iff_nonnegative[OF fixture_qc_use(1,2), of 7 "PlannerInfo 0" rel0 "[]" globals0
      rel0 rel0 sjinfo0 "[]" path0 path0]
  by (simp add: fixture_qc_use fixture_predictions fixture_defaults)

subsection \<open>Classification of a new class\<close>

text \<open>
  C2. When the query takes neither early exit and its hash is not in the knowledge base,
  the switch of lines 211-256 assigns the flags of the mode table: Intelligent gives
  learn, not use, auto-tuning, collect, and the query hash as feature space; Forced gives
  learn, use, no auto-tuning, no collect and the feature space 0; Controlled and Frozen
  give all four flags false; Learn gives learn, use, no auto-tuning, collect, and the
  query hash as feature space. The context that \<^verbatim>\<open>aqo_planner\<close> leaves has the same
  learn, use and auto-tuning flags; its collect flag and feature space are those of the
  table unless \<^verbatim>\<open>force_collect_stat\<close> overrides them (lines 339-347).
\<close>

theorem new_class_mode_table:
  assumes "\<not> fast_exit env parse qs st"
    and "aqo_queries st (get_query_hash env parse qs) = None"
  shows
    "(aqo_mode env = AQO_MODE_INTELLIGENT \<longrightarrow>
        (let qc = query_context (snd (new_class_settings env s)) in
         learn_aqo qc \<and> \<not> use_aqo qc \<and> auto_tuning qc \<and> collect_stat qc \<and>
         fspace_hash qc = query_hash (query_context s)) \<and>
        (let qc = query_context (snd (aqo_planner env parse qs co bp st)) in
         learn_aqo qc \<and> \<not> use_aqo qc \<and> auto_tuning qc \<and> collect_stat qc \<and>
         fspace_hash qc = get_query_hash env parse qs)) \<and>
     (aqo_mode env = AQO_MODE_FORCED \<longrightarrow>
        (let qc = query_context (snd (new_class_settings env s)) in
         learn_aqo qc \<and> use_aqo qc \<and> \<not> auto_tuning qc \<and> \<not> collect_stat qc \<and>
         fspace_hash qc = 0) \<and>
        (let qc = query_context (snd (aqo_planner env parse qs co bp st)) in
         learn_aqo qc \<and> use_aqo qc \<and> \<not> auto_tuning qc \<and>
         collect_stat qc = force_collect_stat env \<and>
         fspace_hash qc = (if force_collect_stat env then get_query_hash env parse qs else 0))) \<and>
     (aqo_mode env = AQO_MODE_CONTROLLED \<or> aqo_mode env = AQO_MODE_FROZEN \<longrightarrow>
        (let qc = query_context (snd (new_class_settings env s)) in
         \<not> learn_aqo qc \<and> \<not> use_aqo qc \<and> \<not> auto_tuning qc \<and> \<not> collect_stat qc) \<and>
        (let qc = query_context (snd (aqo_planner env parse qs co bp st)) in
         \<not> learn_aqo qc \<and> \<not> use_aqo qc \<and> \<not> auto_tuning qc \<and>
         collect_stat qc = force_collect_stat env)) \<and>
     (aqo_mode env = AQO_MODE_LEARN \<longrightarrow>
        (let qc = query_context (snd (new_class_settings env s)) in
         learn_aqo qc \<and> use_aqo qc \<and> \<not> auto_tuning qc \<and> collect_stat qc \<and>
         fspace_hash qc = query_hash (query_context s)) \<and>
        (let qc = query_context (snd (aqo_planner env parse qs co bp st)) in
         learn_aqo qc \<and> use_aqo qc \<and> \<not> auto_tuning qc \<and> collect_stat qc \<and>
         fspace_hash qc = get_query_hash env parse qs))"
proof -
  let ?s4 = "log_event (Ev_find_query (get_query_hash env parse qs)) (classify_entry env parse qs st)"
  have qh: "query_hash (query_context ?s4) = get_query_hash env parse qs"
    by (simp add: log_event_def classify_entry_fields)
  have "?thesis" if m: "aqo_mode env = AQO_MODE_INTELLIGENT"
    using m qh aqo_planner_new_class[OF assms _ new_class_settings_context(1)[OF m], of co bp]
    by (simp add: ignore_query_settings_flags new_class_settings_context(1)[OF m])
  moreover have "?thesis" if m: "aqo_mode env = AQO_MODE_FORCED"
    using m qh aqo_planner_new_class[OF assms _ new_class_settings_context(2)[OF m], of co bp]
    by (simp add: ignore_query_settings_flags new_class_settings_context(2)[OF m])
  moreover have "?thesis" if m: "aqo_mode env = AQO_MODE_CONTROLLED \<or> aqo_mode env = AQO_MODE_FROZEN"
    using m qh aqo_planner_new_class[OF assms _ new_class_settings_context(3)[OF m], of co bp]
    by (auto simp add: ignore_query_settings_flags new_class_settings_context(3)[OF m])
  moreover have "?thesis" if m: "aqo_mode env = AQO_MODE_LEARN"
    using m qh aqo_planner_new_class[OF assms _ new_class_settings_context(4)[OF m], of co bp]
    by (simp add: ignore_query_settings_flags new_class_settings_context(4)[OF m])
  moreover have "?thesis" if "aqo_mode env = AQO_MODE_DISABLED \<or> (\<exists>m. aqo_mode env = AQO_MODE_OTHER m)"
    using that by auto
  ultimately show ?thesis by (cases "aqo_mode env") blast+
qed

theorem new_class_mode_table_witness:
  "(let qc = query_context (snd (aqo_planner (env0\<lparr>aqo_mode := AQO_MODE_INTELLIGENT\<rparr>) query0
                (Some ''select 1'') 0 (ParamListInfo 0) state0)) in
     learn_aqo qc \<and> \<not> use_aqo qc \<and> auto_tuning qc \<and> collect_stat qc \<and> fspace_hash qc = 42) \<and>
   (let qc = query_context (snd (aqo_planner (env0\<lparr>aqo_mode := AQO_MODE_FORCED\<rparr>) query0
                (Some ''select 1'') 0 (ParamListInfo 0) state0)) in
     learn_aqo qc \<and> use_aqo qc \<and> \<not> auto_tuning qc \<and> \<not> collect_stat qc \<and> fspace_hash qc = 0) \<and>
   (let qc = query_context (snd (aqo_planner (env0\<lparr>aqo_mode := AQO_MODE_CONTROLLED\<rparr>) query0
                (Some ''select 1'') 0 (ParamListInfo 0) state0)) in
     \<not> learn_aqo qc \<and> \<not> use_aqo qc \<and> \<not> auto_tuning qc \<and> \<not> collect_stat qc) \<and>
   (let qc = query_context (snd (aqo_planner (env0\<lparr>aqo_mode := AQO_MODE_FROZEN\<rparr>) query0
                (Some ''select 1'') 0 (ParamListInfo 0) state0)) in
     \<not> learn_aqo qc \<and> \<not> use_aqo qc \<and> \<not> auto_tuning qc \<and> \<not> collect_stat qc) \<and>
   (let qc = query_context (snd (aqo_planner (env0\<lparr>aqo_mode := AQO_MODE_LEARN\<rparr>) query0
                (Some ''select 1'') 0 (ParamListInfo 0) state0)) in
     learn_aqo qc \<and> use_aqo qc \<and> \<not> auto_tuning qc \<and> collect_stat qc \<and> fspace_hash qc = 42)"
proof -
  note t = new_class_mode_table[where s=state0 and co=0 and bp="ParamListInfo 0"
      and qs="Some ''select 1''" and parse=query0 and st=state0]
  have f: "force_collect_stat env0 = False"
    by (simp add: env0_def)
  show ?thesis
    using t[where env="env0\<lparr>aqo_mode := AQO_MODE_INTELLIGENT\<rparr>"]
      t[where env="env0\<lparr>aqo_mode := AQO_MODE_FORCED\<rparr>"]
      t[where env="env0\<lparr>aqo_mode := AQO_MODE_CONTROLLED\<rparr>"]
      t[where env="env0\<lparr>aqo_mode := AQO_MODE_FROZEN\<rparr>"]
      t[where env="env0\<lparr>aqo_mode := AQO_MODE_LEARN\<rparr>"]
    by (simp add: fixture_hash f fixture_no_fast_exit fixture_new)
qed

subsection \<open>Classes that are deactivated or in progress\<close>

text \<open>
  C3. When the condition of lines 150-160 does not hold and the computed query hash is on
  the deny-list or a member of \<open>cur_classes\<close>, \<^verbatim>\<open>aqo_planner\<close> disables AQO for the query
  and returns the plan of the default planner; the only calls it makes are the clearing of
  the selectivity cache and the default planner, so there is no lookup in the knowledge
  base and no registration: the class table, the text table, \<open>cur_classes\<close> and the
  deny-list are unchanged. With the context it leaves, each of the five estimation hooks
  gives the result of its default estimator, without a prediction.
\<close>

theorem handled_class_is_bypassed:
  assumes "\<not> bypass_condition env (fst (aqoIsEnabled env st)) parse"
    and "query_is_deactivated (get_query_hash env parse qs) st \<or>
         get_query_hash env parse qs \<in> set (cur_classes st)"
  shows "fst (aqo_planner env parse qs co bp st) = Planned (default_plan env parse qs co bp) \<and>
         new_events st (snd (aqo_planner env parse qs co bp st)) =
           [Ev_selectivity_cache_clear, Ev_default_planner] \<and>
         aqo_queries (snd (aqo_planner env parse qs co bp st)) = aqo_queries st \<and>
         aqo_query_texts (snd (aqo_planner env parse qs co bp st)) = aqo_query_texts st \<and>
         cur_classes (snd (aqo_planner env parse qs co bp st)) = cur_classes st \<and>
         deactivated_queries (snd (aqo_planner env parse qs co bp st)) = deactivated_queries st \<and>
         \<not> learn_aqo (query_context (snd (aqo_planner env parse qs co bp st))) \<and>
         \<not> use_aqo (query_context (snd (aqo_planner env parse qs co bp st))) \<and>
         \<not> auto_tuning (query_context (snd (aqo_planner env parse qs co bp st))) \<and>
         \<not> collect_stat (query_context (snd (aqo_planner env parse qs co bp st))) \<and>
         \<not> adding_query (query_context (snd (aqo_planner env parse qs co bp st))) \<and>
         aqo_set_baserel_rows_estimate cenv
             (query_context (snd (aqo_planner env parse qs co bp st))) proot rel =
           baserel_default_estimator cenv proot rel \<and>
         aqo_get_parameterized_baserel_size cenv
             (query_context (snd (aqo_planner env parse qs co bp st))) proot rel param_clauses g =
           (default_get_parameterized_baserel_size cenv proot rel param_clauses, g) \<and>
         aqo_set_joinrel_size_estimates cenv
             (query_context (snd (aqo_planner env parse qs co bp st))) proot rel outer_rel
             inner_rel sjinfo restrictlist =
           joinrel_default_estimator cenv proot rel outer_rel inner_rel sjinfo restrictlist \<and>
         aqo_get_parameterized_joinrel_size cenv
             (query_context (snd (aqo_planner env parse qs co bp st))) proot rel outer_path
             inner_path sjinfo restrictlist g =
           (default_get_parameterized_joinrel_size cenv proot rel outer_path inner_path sjinfo
              restrictlist, g) \<and>
         aqo_estimate_num_groups_hook cenv
             (query_context (snd (aqo_planner env parse qs co bp st))) proot groupExprs subpath
             grouped_rel pgset estinfo =
           Inr \<lparr>ng_value = default_estimate_num_groups cenv proot groupExprs subpath grouped_rel
                             pgset estinfo,
               ng_grouped_rel = grouped_rel, ng_estinfo = estinfo, ng_warnings = []\<rparr>"
proof -
  have fe: "fast_exit env parse qs st"
    using assms(2) by (simp add: fast_exit_def)
  note fx = aqo_planner_fast_exit[OF fe, of co bp]
  have ev: "new_events st (snd (aqo_planner env parse qs co bp st)) =
           [Ev_selectivity_cache_clear, Ev_default_planner]"
    using new_events_append[OF fx(12)] assms(1) by simp
  have u: "\<not> use_aqo (query_context (snd (aqo_planner env parse qs co bp st)))"
    and l: "\<not> learn_aqo (query_context (snd (aqo_planner env parse qs co bp st)))"
    by (simp_all add: fx)
  show ?thesis
    using fx(1) ev fx(8-11) u l fx(4-6)
      hooks_default_when_unused(1)[OF u] hooks_default_when_unused(2)[OF u l]
      hooks_default_when_unused(3)[OF u] hooks_default_when_unused(4)[OF u]
      hooks_default_when_unused(5)[OF u]
    by simp
qed

theorem handled_class_is_bypassed_witness:
  "\<not> bypass_condition env0 (fst (aqoIsEnabled env0 (state0\<lparr>cur_classes := [42]\<rparr>))) query0 \<and>
   get_query_hash env0 query0 (Some ''select 1'') \<in> set (cur_classes (state0\<lparr>cur_classes := [42]\<rparr>)) \<and>
   fst (aqo_planner env0 query0 (Some ''select 1'') 0 (ParamListInfo 0)
          (state0\<lparr>cur_classes := [42]\<rparr>)) = Planned (PlannedStmt 1) \<and>
   new_events (state0\<lparr>cur_classes := [42]\<rparr>)
     (snd (aqo_planner env0 query0 (Some ''select 1'') 0 (ParamListInfo 0)
             (state0\<lparr>cur_classes := [42]\<rparr>))) =
     [Ev_selectivity_cache_clear, Ev_default_planner] \<and>
   rows (aqo_set_baserel_rows_estimate cenv0
           (query_context (snd (aqo_planner env0 query0 (Some ''select 1'') 0 (ParamListInfo 0)
             (state0\<lparr>cur_classes := [42]\<rparr>)))) (PlannerInfo 0) rel0) = Finite 1000"
proof -
  have h1: "\<not> bypass_condition env0 (fst (aqoIsEnabled env0 (state0\<lparr>cur_classes := [42]\<rparr>))) query0"
    by (simp add: bypass_condition_def aqoIsEnabled_def fixture_defs
      isQueryUsingSystemRelation_def IsAQORelation_def)
  have h2: "query_is_deactivated (get_query_hash env0 query0 (Some ''select 1''))
              (state0\<lparr>cur_classes := [42]\<rparr>) \<or>
            get_query_hash env0 query0 (Some ''select 1'') \<in> set (cur_classes (state0\<lparr>cur_classes := [42]\<rparr>))"
    by (simp add: fixture_hash)
  have d: "rows (baserel_default_estimator cenv0 (PlannerInfo 0) rel0) = Finite 1000"
    by (simp add: baserel_default_estimator_def default_set_baserel_rows_estimate_def cenv0_def)
  show ?thesis
    using handled_class_is_bypassed[OF h1 h2, of 0 "ParamListInfo 0" cenv0 "PlannerInfo 0" rel0] h1 d
    by (simp add: fixture_hash fixture_plan0)
qed

subsection \<open>Deactivation of a class without use\<close>

text \<open>
  C4. When the query takes neither early exit, the mode is not Disabled, the class is
  found in the knowledge base with learn, use and auto-tuning all false, and
  \<^verbatim>\<open>force_collect_stat\<close> is off, \<^verbatim>\<open>aqo_planner\<close> puts the query hash on the deny-list.
  No later call of \<^verbatim>\<open>aqo_planner\<close> takes it off, and every later call for a query of
  this hash, from a state whose deny-list holds it, returns the plan of the default planner
  with AQO disabled, calls nothing but the clearing of the selectivity cache and the
  default planner, and leaves the class table as it is.
\<close>

theorem idle_class_is_deactivated:
  assumes "\<not> fast_exit env parse qs st"
    and "aqo_mode env \<noteq> AQO_MODE_DISABLED"
    and "aqo_queries st (get_query_hash env parse qs) = Some r"
    and "\<not> row_learn_aqo r" and "\<not> row_use_aqo r" and "\<not> row_auto_tuning r"
    and "\<not> force_collect_stat env"
  shows "get_query_hash env parse qs \<in> deactivated_queries (snd (aqo_planner env parse qs co bp st)) \<and>
         (\<forall>env' parse' qs' co' bp' s.
            get_query_hash env parse qs \<in> deactivated_queries s \<longrightarrow>
            get_query_hash env parse qs \<in>
              deactivated_queries (snd (aqo_planner env' parse' qs' co' bp' s))) \<and>
         (\<forall>env' parse' qs' co' bp' s.
            get_query_hash env' parse' qs' = get_query_hash env parse qs \<and>
            get_query_hash env parse qs \<in> deactivated_queries s \<longrightarrow>
            fst (aqo_planner env' parse' qs' co' bp' s) =
              Planned (default_plan env' parse' qs' co' bp') \<and>
            set (new_events s (snd (aqo_planner env' parse' qs' co' bp' s))) \<subseteq>
              {Ev_selectivity_cache_clear, Ev_default_planner} \<and>
            \<not> use_aqo (query_context (snd (aqo_planner env' parse' qs' co' bp' s))) \<and>
            \<not> learn_aqo (query_context (snd (aqo_planner env' parse' qs' co' bp' s))) \<and>
            aqo_queries (snd (aqo_planner env' parse' qs' co' bp' s)) = aqo_queries s)"
proof (intro conjI allI impI)
  show "get_query_hash env parse qs \<in> deactivated_queries (snd (aqo_planner env parse qs co bp st))"
    using assms by (simp add: aqo_planner_deactivated settled_state_deactivated)
next
  fix env' :: planner_env and parse' qs' co' bp' and s :: aqo_state
  assume "get_query_hash env parse qs \<in> deactivated_queries s"
  then show "get_query_hash env parse qs \<in>
      deactivated_queries (snd (aqo_planner env' parse' qs' co' bp' s))"
    using aqo_planner_deactivated_mono[of s env' parse' qs' co' bp'] by blast
next
  fix env' :: planner_env and parse' qs' co' bp' and s :: aqo_state
  assume a: "get_query_hash env' parse' qs' = get_query_hash env parse qs \<and>
            get_query_hash env parse qs \<in> deactivated_queries s"
  then have fe: "fast_exit env' parse' qs' s"
    by (simp add: fast_exit_def query_is_deactivated_def)
  show "fst (aqo_planner env' parse' qs' co' bp' s) = Planned (default_plan env' parse' qs' co' bp')"
    by (rule aqo_planner_fast_exit(1)[OF fe])
  show "set (new_events s (snd (aqo_planner env' parse' qs' co' bp' s))) \<subseteq>
              {Ev_selectivity_cache_clear, Ev_default_planner}"
    by (simp add: new_events_append[OF aqo_planner_fast_exit(12)[OF fe]])
  show "\<not> use_aqo (query_context (snd (aqo_planner env' parse' qs' co' bp' s)))"
    by (simp add: aqo_planner_fast_exit[OF fe])
  show "\<not> learn_aqo (query_context (snd (aqo_planner env' parse' qs' co' bp' s)))"
    by (simp add: aqo_planner_fast_exit[OF fe])
  show "aqo_queries (snd (aqo_planner env' parse' qs' co' bp' s)) = aqo_queries s"
    by (simp add: aqo_planner_fast_exit[OF fe])
qed

theorem idle_class_is_deactivated_witness:
  "\<not> fast_exit env0 query0 (Some ''select 1'') state_idle \<and>
   aqo_mode env0 \<noteq> AQO_MODE_DISABLED \<and> \<not> force_collect_stat env0 \<and>
   aqo_queries state_idle (get_query_hash env0 query0 (Some ''select 1'')) =
     Some \<lparr>row_learn_aqo = False, row_use_aqo = False, row_fspace_hash = 7, row_auto_tuning = False\<rparr> \<and>
   42 \<in> deactivated_queries
          (snd (aqo_planner env0 query0 (Some ''select 1'') 0 (ParamListInfo 0) state_idle)) \<and>
   fst (aqo_planner env0 query0 (Some ''select 2'') 0 (ParamListInfo 0)
          (snd (aqo_planner env0 query0 (Some ''select 1'') 0 (ParamListInfo 0) state_idle))) =
     Planned (PlannedStmt 1) \<and>
   set (new_events
          (snd (aqo_planner env0 query0 (Some ''select 1'') 0 (ParamListInfo 0) state_idle))
          (snd (aqo_planner env0 query0 (Some ''select 2'') 0 (ParamListInfo 0)
             (snd (aqo_planner env0 query0 (Some ''select 1'') 0 (ParamListInfo 0) state_idle)))))
     \<subseteq> {Ev_selectivity_cache_clear, Ev_default_planner}"
proof -
  have h1: "\<not> fast_exit env0 query0 (Some ''select 1'') state_idle"
    by (rule fixture_idle_no_fast_exit)
  have h2: "aqo_mode env0 \<noteq> AQO_MODE_DISABLED" and h7: "\<not> force_collect_stat env0"
    by (simp_all add: env0_def)
  have h3: "aqo_queries state_idle (get_query_hash env0 query0 (Some ''select 1'')) =
     Some \<lparr>row_learn_aqo = False, row_use_aqo = False, row_fspace_hash = 7, row_auto_tuning = False\<rparr>"
    by (simp add: state_idle_def fixture_hash)
  note t = idle_class_is_deactivated[OF h1 h2 h3 _ _ _ h7, of 0 "ParamListInfo 0", simplified]
  have d: "42 \<in> deactivated_queries
          (snd (aqo_planner env0 query0 (Some ''select 1'') 0 (ParamListInfo 0) state_idle))"
    using t by (simp add: fixture_hash)
  have n: "fst (aqo_planner env0 query0 (Some ''select 2'') 0 (ParamListInfo 0)
          (snd (aqo_planner env0 query0 (Some ''select 1'') 0 (ParamListInfo 0) state_idle))) =
     Planned (PlannedStmt 1) \<and>
   set (new_events
          (snd (aqo_planner env0 query0 (Some ''select 1'') 0 (ParamListInfo 0) state_idle))
          (snd (aqo_planner env0 query0 (Some ''select 2'') 0 (ParamListInfo 0)
             (snd (aqo_planner env0 query0 (Some ''select 1'') 0 (ParamListInfo 0) state_idle)))))
     \<subseteq> {Ev_selectivity_cache_clear, Ev_default_planner}"
    using t d
      conjunct2[OF conjunct2[OF t], rule_format, of env0 query0 "Some ''select 2''"
        "snd (aqo_planner env0 query0 (Some ''select 1'') 0 (ParamListInfo 0) state_idle)"
        0 "ParamListInfo 0"]
    by (simp add: fixture_hash fixture_plan0)
  show ?thesis using h1 h2 h3 h7 d n by simp
qed

subsection \<open>Registration of a class\<close>

text \<open>
  C5, as stated, fails in two ways. In the mode Forced a class that is not stored gets
  \<open>learn_aqo\<close> set, so learning is enabled for it and it was not already stored, but no
  class row is written: the class table is unchanged and the calls are the clearing of
  the cache, the lookup and the default planner. And with forced collection a class that
  is not stored, but is in progress in this backend (its hash is in \<open>cur_classes\<close>), leaves
  through the exit of lines 177-190 and no class row is written either.
\<close>

theorem forced_mode_learns_without_registration:
  "aqo_queries state0 (get_query_hash (env0\<lparr>aqo_mode := AQO_MODE_FORCED\<rparr>) query0 (Some ''select 1'')) = None \<and>
   \<not> fast_exit (env0\<lparr>aqo_mode := AQO_MODE_FORCED\<rparr>) query0 (Some ''select 1'') state0 \<and>
   learn_aqo (query_context (snd (aqo_planner (env0\<lparr>aqo_mode := AQO_MODE_FORCED\<rparr>) query0
      (Some ''select 1'') 0 (ParamListInfo 0) state0))) \<and>
   aqo_queries (snd (aqo_planner (env0\<lparr>aqo_mode := AQO_MODE_FORCED\<rparr>) query0
      (Some ''select 1'') 0 (ParamListInfo 0) state0)) = aqo_queries state0 \<and>
   trace (snd (aqo_planner (env0\<lparr>aqo_mode := AQO_MODE_FORCED\<rparr>) query0
      (Some ''select 1'') 0 (ParamListInfo 0) state0)) =
     [Ev_selectivity_cache_clear, Ev_find_query 42, Ev_default_planner] \<and>
   force_collect_stat (env0\<lparr>force_collect_stat := True\<rparr>) \<and>
   aqo_queries (state0\<lparr>cur_classes := [42]\<rparr>)
     (get_query_hash (env0\<lparr>force_collect_stat := True\<rparr>) query0 (Some ''select 1'')) = None \<and>
   aqo_queries (snd (aqo_planner (env0\<lparr>force_collect_stat := True\<rparr>) query0
      (Some ''select 1'') 0 (ParamListInfo 0) (state0\<lparr>cur_classes := [42]\<rparr>))) =
     aqo_queries (state0\<lparr>cur_classes := [42]\<rparr>) \<and>
   trace (snd (aqo_planner (env0\<lparr>force_collect_stat := True\<rparr>) query0
      (Some ''select 1'') 0 (ParamListInfo 0) (state0\<lparr>cur_classes := [42]\<rparr>))) =
     [Ev_selectivity_cache_clear, Ev_default_planner]"
proof -
  have nf: "\<not> fast_exit (env0\<lparr>aqo_mode := AQO_MODE_FORCED\<rparr>) query0 (Some ''select 1'') state0"
    by (rule fixture_no_fast_exit) simp
  have ns: "new_class_settings (env0\<lparr>aqo_mode := AQO_MODE_FORCED\<rparr>) s =
       (None, s\<lparr>query_context := (query_context s)\<lparr>adding_query := False, learn_aqo := True,
          use_aqo := True, auto_tuning := False, fspace_hash := 0, collect_stat := False\<rparr>\<rparr>)" for s
    by (rule new_class_settings_context(2)) simp
  have f: "force_collect_stat env0 = False" by (simp add: env0_def)
  have t: "trace state0 = []" by (simp add: state0_def)
  have first: "aqo_queries state0
       (get_query_hash (env0\<lparr>aqo_mode := AQO_MODE_FORCED\<rparr>) query0 (Some ''select 1'')) = None \<and>
     learn_aqo (query_context (snd (aqo_planner (env0\<lparr>aqo_mode := AQO_MODE_FORCED\<rparr>) query0
        (Some ''select 1'') 0 (ParamListInfo 0) state0))) \<and>
     aqo_queries (snd (aqo_planner (env0\<lparr>aqo_mode := AQO_MODE_FORCED\<rparr>) query0
        (Some ''select 1'') 0 (ParamListInfo 0) state0)) = aqo_queries state0 \<and>
     trace (snd (aqo_planner (env0\<lparr>aqo_mode := AQO_MODE_FORCED\<rparr>) query0
        (Some ''select 1'') 0 (ParamListInfo 0) state0)) =
       [Ev_selectivity_cache_clear, Ev_find_query 42, Ev_default_planner]"
    using nf
    by (simp add: aqo_planner_classify fixture_new fixture_hash Let_def ns
        ignore_query_settings_flags ignore_query_settings_effect f classify_entry_fields
        log_event_def t)
  have nb: "\<not> bypass_condition (env0\<lparr>force_collect_stat := True\<rparr>)
              (fst (aqoIsEnabled (env0\<lparr>force_collect_stat := True\<rparr>) (state0\<lparr>cur_classes := [42]\<rparr>)))
              query0"
    by (simp add: bypass_condition_def aqoIsEnabled_def fixture_defs
        isQueryUsingSystemRelation_def IsAQORelation_def)
  have fe: "fast_exit (env0\<lparr>force_collect_stat := True\<rparr>) query0 (Some ''select 1'')
              (state0\<lparr>cur_classes := [42]\<rparr>)"
    by (simp add: fast_exit_def fixture_hash)
  have second: "aqo_queries (state0\<lparr>cur_classes := [42]\<rparr>)
       (get_query_hash (env0\<lparr>force_collect_stat := True\<rparr>) query0 (Some ''select 1'')) = None \<and>
     aqo_queries (snd (aqo_planner (env0\<lparr>force_collect_stat := True\<rparr>) query0
        (Some ''select 1'') 0 (ParamListInfo 0) (state0\<lparr>cur_classes := [42]\<rparr>))) =
       aqo_queries (state0\<lparr>cur_classes := [42]\<rparr>) \<and>
     trace (snd (aqo_planner (env0\<lparr>force_collect_stat := True\<rparr>) query0
        (Some ''select 1'') 0 (ParamListInfo 0) (state0\<lparr>cur_classes := [42]\<rparr>))) =
       [Ev_selectivity_cache_clear, Ev_default_planner]"
    using nb by (simp add: aqo_planner_fast_exit[OF fe] fixture_new t)
  show ?thesis using nf first second by simp
qed

text \<open>
  C5, amended. For a mode among the six, and leaving aside the case of the mode Disabled
  with forced collection for a class that is already stored, \<^verbatim>\<open>aqo_planner\<close> writes a
  class row for the query hash if and only if it takes neither early exit, the class was
  not already stored, and the flag \<open>adding_query\<close> is set or \<^verbatim>\<open>force_collect_stat\<close> is on;
  \<open>adding_query\<close> is set exactly for a class that is not stored in the modes Intelligent
  and Learn. When the row is written, the calls are: the exclusive lock keyed by the query
  hash is acquired, the row is written, the query text is written when there is one, the
  lock is released, and then the default planner runs; afterwards the class table has a
  row for the hash and, when there is a text, the text table has the text. When no row
  is written, the class table and the text table are unchanged.
\<close>

theorem registration_condition:
  assumes "recognized_mode (aqo_mode env)"
    and "\<not> (aqo_mode env = AQO_MODE_DISABLED \<and> force_collect_stat env \<and>
            aqo_queries st (get_query_hash env parse qs) \<noteq> None)"
  shows
    "((\<exists>f l u a. Ev_update_query (get_query_hash env parse qs) f l u a
          \<in> set (new_events st (snd (aqo_planner env parse qs co bp st)))) \<longleftrightarrow>
      (\<not> fast_exit env parse qs st \<and> aqo_queries st (get_query_hash env parse qs) = None \<and>
       (adding_query (query_context (snd (aqo_planner env parse qs co bp st))) \<or>
        force_collect_stat env))) \<and>
     (\<not> fast_exit env parse qs st \<longrightarrow>
        adding_query (query_context (snd (aqo_planner env parse qs co bp st))) =
          (aqo_queries st (get_query_hash env parse qs) = None \<and>
           (aqo_mode env = AQO_MODE_INTELLIGENT \<or> aqo_mode env = AQO_MODE_LEARN))) \<and>
     (\<not> fast_exit env parse qs st \<and> aqo_queries st (get_query_hash env parse qs) = None \<and>
       (adding_query (query_context (snd (aqo_planner env parse qs co bp st))) \<or>
        force_collect_stat env) \<longrightarrow>
        (\<exists>pre. new_events st (snd (aqo_planner env parse qs co bp st)) =
                 pre @ registration_events qs (query_context (settled_state env parse qs st)) @
                 [Ev_default_planner] \<and>
               set pre \<subseteq> {Ev_selectivity_cache_clear,
                          Ev_find_query (get_query_hash env parse qs)}) \<and>
        query_hash (query_context (settled_state env parse qs st)) = get_query_hash env parse qs \<and>
        aqo_queries (snd (aqo_planner env parse qs co bp st)) (get_query_hash env parse qs) \<noteq> None \<and>
        (\<forall>text. qs = Some text \<longrightarrow>
           aqo_query_texts (snd (aqo_planner env parse qs co bp st)) (get_query_hash env parse qs) =
             Some text)) \<and>
     (\<not> (\<not> fast_exit env parse qs st \<and> aqo_queries st (get_query_hash env parse qs) = None \<and>
         (adding_query (query_context (snd (aqo_planner env parse qs co bp st))) \<or>
          force_collect_stat env)) \<longrightarrow>
        aqo_queries (snd (aqo_planner env parse qs co bp st)) = aqo_queries st \<and>
        aqo_query_texts (snd (aqo_planner env parse qs co bp st)) = aqo_query_texts st)"
proof (cases "fast_exit env parse qs st")
  case True
  have "set (new_events st (snd (aqo_planner env parse qs co bp st))) \<subseteq>
          {Ev_selectivity_cache_clear, Ev_default_planner}"
    by (simp add: new_events_append[OF aqo_planner_fast_exit(12)[OF True]])
  then have "\<not> (\<exists>f l u a. Ev_update_query (get_query_hash env parse qs) f l u a
          \<in> set (new_events st (snd (aqo_planner env parse qs co bp st))))"
    by auto
  with True show ?thesis by (simp add: aqo_planner_fast_exit[OF True])
next
  case False
  let ?s' = "snd (aqo_planner env parse qs co bp st)"
  let ?qc = "query_context (settled_state env parse qs st)"
  let ?old = "\<not> query_is_stored_at_label env parse qs st \<and>
       (adding_query (query_context ?s') \<or> force_collect_stat env)"
  let ?cond = "aqo_queries st (get_query_hash env parse qs) = None \<and>
       (adding_query (query_context ?s') \<or> force_collect_stat env)"
  have adding: "adding_query (query_context ?s') = adding_query ?qc"
    using False assms(1) by (simp add: aqo_planner_settled ignore_query_settings_flags)
  have b: "adding_query (query_context ?s') =
          (aqo_queries st (get_query_hash env parse qs) = None \<and>
           (aqo_mode env = AQO_MODE_INTELLIGENT \<or> aqo_mode env = AQO_MODE_LEARN))"
    using assms(1) by (auto simp add: adding settled_state_adding)
  have same: "?old \<longleftrightarrow> ?cond"
    using assms(2) b by (auto simp add: query_is_stored_at_label_def)
  obtain pre where ev: "new_events st ?s' =
           pre @ (if ?old then registration_events qs ?qc else []) @ [Ev_default_planner]"
    and pre: "set pre \<subseteq> {Ev_selectivity_cache_clear, Ev_find_query (get_query_hash env parse qs),
                      Ev_add_deactivated_query (get_query_hash env parse qs)}"
    and pre': "\<not> query_is_stored_at_label env parse qs st \<longrightarrow>
              set pre \<subseteq> {Ev_selectivity_cache_clear, Ev_find_query (get_query_hash env parse qs)}"
    using aqo_planner_slow_events[OF False assms(1), where co=co and bp=bp] by blast
  have a: "(\<exists>f l u a. Ev_update_query (get_query_hash env parse qs) f l u a \<in> set (new_events st ?s'))
        \<longleftrightarrow> ?old"
  proof
    assume "\<exists>f l u a. Ev_update_query (get_query_hash env parse qs) f l u a \<in> set (new_events st ?s')"
    then show ?old using pre by (auto simp add: ev split: if_splits)
  next
    assume c: ?old
    have "Ev_update_query (query_hash ?qc) (fspace_hash ?qc) (learn_aqo ?qc) (use_aqo ?qc)
            (auto_tuning ?qc) \<in> set (new_events st ?s')"
      using c by (simp add: ev update_query_in_registration)
    then show "\<exists>f l u a. Ev_update_query (get_query_hash env parse qs) f l u a \<in> set (new_events st ?s')"
      by (auto simp add: settled_state_hash)
  qed
  have eq: "?s' = snd (ignore_query_settings env (query_is_stored_at_label env parse qs st)
                      parse qs co bp (settled_state env parse qs st))"
    using False assms(1) by (simp add: aqo_planner_settled)
  have c: "aqo_queries ?s' (get_query_hash env parse qs) \<noteq> None \<and>
        (\<forall>text. qs = Some text \<longrightarrow> aqo_query_texts ?s' (get_query_hash env parse qs) = Some text)"
    if cond: "?old"
  proof -
    have eq': "?s' = snd (ignore_query_settings env False parse qs co bp
                      (settled_state env parse qs st))"
      using cond eq by simp
    have reg: "adding_query ?qc \<or> force_collect_stat env"
      using cond adding by simp
    have "aqo_queries ?s' (get_query_hash env parse qs) \<noteq> None"
      unfolding eq' using reg by (simp add: ignore_query_settings_effect settled_state_hash)
    moreover have "aqo_query_texts ?s' (get_query_hash env parse qs) = Some qtext"
      if "qs = Some qtext" for qtext
      unfolding eq' using reg that
      by (simp add: ignore_query_settings_effect settled_state_hash)
    ultimately show ?thesis by blast
  qed
  have d: "aqo_queries ?s' = aqo_queries st \<and> aqo_query_texts ?s' = aqo_query_texts st"
    if ncond: "\<not> ?old"
  proof -
    have nreg: "\<not> (\<not> query_is_stored_at_label env parse qs st \<and>
                  (adding_query ?qc \<or> force_collect_stat env))"
      using ncond adding by simp
    have "aqo_queries ?s' = aqo_queries st"
      unfolding eq using nreg
      by (auto simp add: ignore_query_settings_effect settled_state_frame)
    moreover have "aqo_query_texts ?s' = aqo_query_texts st"
      unfolding eq using nreg
      by (auto simp add: ignore_query_settings_effect settled_state_frame)
    ultimately show ?thesis by blast
  qed
  have pre'': "?cond \<longrightarrow>
      set pre \<subseteq> {Ev_selectivity_cache_clear, Ev_find_query (get_query_hash env parse qs)}"
    using pre' same by blast
  have ev': "?cond \<longrightarrow> new_events st ?s' = pre @ registration_events qs ?qc @ [Ev_default_planner]"
    using ev same by simp
  have part3: "?cond \<longrightarrow>
        (\<exists>pre. new_events st ?s' = pre @ registration_events qs ?qc @ [Ev_default_planner] \<and>
               set pre \<subseteq> {Ev_selectivity_cache_clear,
                          Ev_find_query (get_query_hash env parse qs)})"
    using ev' pre'' by blast
  show ?thesis
    using False a b c d same part3 settled_state_hash[of env parse qs st] by blast
qed

theorem registration_condition_witness:
  "recognized_mode (aqo_mode env0) \<and>
   \<not> (aqo_mode env0 = AQO_MODE_DISABLED \<and> force_collect_stat env0 \<and>
      aqo_queries state0 (get_query_hash env0 query0 (Some ''select 1'')) \<noteq> None) \<and>
   \<not> fast_exit env0 query0 (Some ''select 1'') state0 \<and>
   aqo_queries state0 (get_query_hash env0 query0 (Some ''select 1'')) = None \<and>
   adding_query (query_context
     (snd (aqo_planner env0 query0 (Some ''select 1'') 0 (ParamListInfo 0) state0))) \<and>
   (\<exists>f l u a. Ev_update_query 42 f l u a
       \<in> set (new_events state0
               (snd (aqo_planner env0 query0 (Some ''select 1'') 0 (ParamListInfo 0) state0)))) \<and>
   aqo_query_texts (snd (aqo_planner env0 query0 (Some ''select 1'') 0 (ParamListInfo 0) state0)) 42 =
     Some ''select 1'' \<and>
   recognized_mode (aqo_mode (env0\<lparr>aqo_mode := AQO_MODE_DISABLED, force_collect_stat := True\<rparr>)) \<and>
   \<not> fast_exit (env0\<lparr>aqo_mode := AQO_MODE_DISABLED, force_collect_stat := True\<rparr>) query0
       (Some ''select 1'') state0 \<and>
   (\<exists>f l u a. Ev_update_query 42 f l u a
       \<in> set (new_events state0
               (snd (aqo_planner (env0\<lparr>aqo_mode := AQO_MODE_DISABLED, force_collect_stat := True\<rparr>)
                       query0 (Some ''select 1'') 0 (ParamListInfo 0) state0)))) \<and>
   aqo_queries (snd (aqo_planner (env0\<lparr>aqo_mode := AQO_MODE_FORCED\<rparr>) query0
      (Some ''select 1'') 0 (ParamListInfo 0) state0)) = aqo_queries state0"
proof -
  have h: "recognized_mode (aqo_mode env0)" by (simp add: env0_def)
  have nf: "\<not> fast_exit env0 query0 (Some ''select 1'') state0"
    using fixture_no_fast_exit[of AQO_MODE_INTELLIGENT "Some ''select 1''"] by (simp add: env0_def)
  have m: "aqo_mode env0 = AQO_MODE_INTELLIGENT" by (simp add: env0_def)
  have h2: "\<not> (aqo_mode env0 = AQO_MODE_DISABLED \<and> force_collect_stat env0 \<and>
      aqo_queries state0 (get_query_hash env0 query0 (Some ''select 1'')) \<noteq> None)"
    by (simp add: m)
  note t = registration_condition[OF h h2, of 0 "ParamListInfo 0"]
  have ad: "adding_query (query_context
     (snd (aqo_planner env0 query0 (Some ''select 1'') 0 (ParamListInfo 0) state0)))"
    using t nf m by (simp add: fixture_new)
  have first: "(\<exists>f l u a. Ev_update_query 42 f l u a
       \<in> set (new_events state0
               (snd (aqo_planner env0 query0 (Some ''select 1'') 0 (ParamListInfo 0) state0)))) \<and>
     aqo_query_texts (snd (aqo_planner env0 query0 (Some ''select 1'') 0 (ParamListInfo 0) state0)) 42 =
       Some ''select 1''"
    using t nf ad by (simp add: fixture_hash fixture_new)
  let ?envD = "env0\<lparr>aqo_mode := AQO_MODE_DISABLED, force_collect_stat := True\<rparr>"
  have hD: "recognized_mode (aqo_mode ?envD)" by simp
  have nfD: "\<not> fast_exit ?envD query0 (Some ''select 1'') state0"
    by (rule fixture_no_fast_exit_forced_collect)
  have h2D: "\<not> (aqo_mode ?envD = AQO_MODE_DISABLED \<and> force_collect_stat ?envD \<and>
      aqo_queries state0 (get_query_hash ?envD query0 (Some ''select 1'')) \<noteq> None)"
    by (simp add: fixture_new)
  have second: "\<exists>f l u a. Ev_update_query 42 f l u a
       \<in> set (new_events state0
               (snd (aqo_planner ?envD query0 (Some ''select 1'') 0 (ParamListInfo 0) state0)))"
    using registration_condition[OF hD h2D, of 0 "ParamListInfo 0"] nfD
    by (simp add: fixture_hash fixture_new)
  let ?envF = "env0\<lparr>aqo_mode := AQO_MODE_FORCED\<rparr>"
  have hF: "recognized_mode (aqo_mode ?envF)" by simp
  have h2F: "\<not> (aqo_mode ?envF = AQO_MODE_DISABLED \<and> force_collect_stat ?envF \<and>
      aqo_queries state0 (get_query_hash ?envF query0 (Some ''select 1'')) \<noteq> None)"
    by simp
  have nfF: "\<not> fast_exit ?envF query0 (Some ''select 1'') state0"
    by (rule fixture_no_fast_exit) simp
  have fF: "force_collect_stat env0 = False" by (simp add: env0_def)
  have third: "aqo_queries (snd (aqo_planner ?envF query0 (Some ''select 1'') 0 (ParamListInfo 0)
      state0)) = aqo_queries state0"
    using registration_condition[OF hF h2F, of 0 "ParamListInfo 0"] nfF
    by (simp add: fixture_new fF)
  show ?thesis
    using h h2 nf ad first hD nfD second third by (simp add: fixture_new)
qed

subsection \<open>Group counts\<close>

text \<open>
  C6, as stated, fails in its closing instance. With the stored target \<^verbatim>\<open>log(37.0)\<close> for
  the grouped signature, the hook returns and adopts \<^verbatim>\<open>exp(log(37.0))\<close> as the C library
  computes it, which is 36.999999999999993, the double below 37, and not 37.
\<close>

theorem log_37_target_gives_less_than_37:
  "use_aqo qc_use \<and>
   load_fss cenv0 (fspace_hash qc_use)
     (get_grouped_exprs_hash cenv0 (child_fss_of cenv0 qc_use (PlannerInfo 0) path0) [Expr 1]) =
     Some (log_37, 1) \<and>
   c_exp cenv0 log_37 = Finite (37 - 1 / 2 ^ 47) \<and>
   aqo_estimate_num_groups_hook cenv0 qc_use (PlannerInfo 0) [Expr 1] path0 rel0 None None =
     Inr \<lparr>ng_value = Finite (37 - 1 / 2 ^ 47),
          ng_grouped_rel = rel0\<lparr>predicted_cardinality := Finite (37 - 1 / 2 ^ 47),
                                rows := Finite (37 - 1 / 2 ^ 47), fss_hash := 6\<rparr>,
          ng_estinfo = None, ng_warnings = []\<rparr> \<and>
   Finite (37 - 1 / 2 ^ 47) \<noteq> Finite 37"
proof -
  have c: "child_fss_of cenv0 qc_use (PlannerInfo 0) path0 = 5"
    by (simp add: child_fss_of_def fixture_path0)
  have g: "get_grouped_exprs_hash cenv0 x es = x + 1" for x es
    by (simp add: cenv0_def)
  have l: "load_fss cenv0 (fspace_hash qc_use) 6 = Some (log_37, 1)"
    by (simp add: fixture_qc_use load_fss_def) (simp add: cenv0_def)
  have e: "c_exp cenv0 log_37 = Finite (37 - 1 / 2 ^ 47)"
    by (simp add: cenv0_def exp_table_def log_37_def)
  have p: "predict_num_groups cenv0 qc_use (PlannerInfo 0) path0 es =
             Inr (Finite (37 - 1 / 2 ^ 47), 6)" for es
    by (simp add: predict_num_groups_def c g l e Let_def)
  have w: "prev_estimate_num_groups_hook cenv0 = None"
    by (simp add: cenv0_def)
  have h: "aqo_estimate_num_groups_hook cenv0 qc_use (PlannerInfo 0) [Expr 1] path0 rel0 None None =
     Inr \<lparr>ng_value = Finite (37 - 1 / 2 ^ 47),
          ng_grouped_rel = rel0\<lparr>predicted_cardinality := Finite (37 - 1 / 2 ^ 47),
                                rows := Finite (37 - 1 / 2 ^ 47), fss_hash := 6\<rparr>,
          ng_estinfo = None, ng_warnings = []\<rparr>"
    by (simp add: aqo_estimate_num_groups_hook_def fixture_qc_use p w Let_def)
  show ?thesis
    using l e h by (simp add: fixture_qc_use c g)
qed

text \<open>
  C6, amended. In group-count estimation with \<open>use_aqo\<close> set, no grouping sets and at least
  one grouping expression, when \<^verbatim>\<open>load_fss\<close> finds a row with the target \<open>target\<close> for the
  grouped signature (and, where assertions are compiled in, the row count 1),
  \<^verbatim>\<open>predict_num_groups\<close> returns \<^verbatim>\<open>exp(target)\<close>, the value of the C library's function,
  unless that value is \<open>\<le> 0\<close>, in which case it returns \<open>-1\<close>. The hook adopts
  \<^verbatim>\<open>exp(target)\<close> as the group count, as rows and as the predicted cardinality of the
  grouped relation, exactly when it is strictly positive; otherwise it marks the grouped
  relation with \<open>-1\<close> and returns the value of the default estimator. For the stored target
  \<^verbatim>\<open>log(37.0)\<close> the group count is therefore \<^verbatim>\<open>exp(log(37.0))\<close>, which equals 37 only up
  to the rounding of the two library functions.
\<close>

theorem group_count_is_exp_of_target:
  assumes "use_aqo qc" and "pgset = None" and "groupExprs \<noteq> []"
    and "load_fss env (fspace_hash qc)
           (get_grouped_exprs_hash env (child_fss_of env qc proot subpath) groupExprs) =
         Some (target, nrows)"
    and "USE_ASSERT_CHECKING env \<longrightarrow> nrows = 1"
  shows
    "predict_num_groups env qc proot subpath groupExprs =
       Inr (if d_le (c_exp env target) (Finite 0) then Finite (- 1) else c_exp env target,
            get_grouped_exprs_hash env (child_fss_of env qc proot subpath) groupExprs) \<and>
     (d_lt (Finite 0) (c_exp env target) \<longrightarrow>
        (\<exists>res. aqo_estimate_num_groups_hook env qc proot groupExprs subpath grouped_rel pgset
                 estinfo = Inr res \<and>
               ng_value res = c_exp env target \<and>
               ng_grouped_rel res =
                 grouped_rel\<lparr>predicted_cardinality := c_exp env target,
                             rows := c_exp env target,
                             fss_hash := get_grouped_exprs_hash env
                                           (child_fss_of env qc proot subpath) groupExprs\<rparr>)) \<and>
     (\<not> d_lt (Finite 0) (c_exp env target) \<longrightarrow>
        (\<exists>res. aqo_estimate_num_groups_hook env qc proot groupExprs subpath grouped_rel pgset
                 estinfo = Inr res \<and>
               ng_value res =
                 default_estimate_num_groups env proot groupExprs subpath
                   (grouped_rel\<lparr>predicted_cardinality := Finite (- 1)\<rparr>) pgset
                   (case estinfo of Some e \<Rightarrow> Some (EstimationInfo 0) | None \<Rightarrow> None) \<and>
               ng_grouped_rel res = grouped_rel\<lparr>predicted_cardinality := Finite (- 1)\<rparr>))"
proof -
  note p = predict_num_groups_found[OF assms(4,5)]
  have pos: "\<exists>res. aqo_estimate_num_groups_hook env qc proot groupExprs subpath grouped_rel pgset
                 estinfo = Inr res \<and>
               ng_value res = c_exp env target \<and>
               ng_grouped_rel res =
                 grouped_rel\<lparr>predicted_cardinality := c_exp env target,
                             rows := c_exp env target,
                             fss_hash := get_grouped_exprs_hash env
                                           (child_fss_of env qc proot subpath) groupExprs\<rparr>"
    if "d_lt (Finite 0) (c_exp env target)"
  proof -
    have "\<not> d_le (c_exp env target) (Finite 0)"
      using that by (cases "c_exp env target") auto
    then show ?thesis
      using assms(1-3) that
      by (simp add: aqo_estimate_num_groups_hook_def Let_def p)
  qed
  have neg: "\<exists>res. aqo_estimate_num_groups_hook env qc proot groupExprs subpath grouped_rel pgset
                 estinfo = Inr res \<and>
               ng_value res =
                 default_estimate_num_groups env proot groupExprs subpath
                   (grouped_rel\<lparr>predicted_cardinality := Finite (- 1)\<rparr>) pgset
                   (case estinfo of Some e \<Rightarrow> Some (EstimationInfo 0) | None \<Rightarrow> None) \<and>
               ng_grouped_rel res = grouped_rel\<lparr>predicted_cardinality := Finite (- 1)\<rparr>"
    if "\<not> d_lt (Finite 0) (c_exp env target)"
    using assms(1-3) that refusal_sentinel_positive[of "c_exp env target"]
    by (simp add: aqo_estimate_num_groups_hook_def Let_def p)
  show ?thesis using p pos neg by blast
qed

theorem group_count_is_exp_of_target_witness:
  "use_aqo qc_use \<and> [Expr 1] \<noteq> [] \<and>
   load_fss cenv0 (fspace_hash qc_use)
     (get_grouped_exprs_hash cenv0 (child_fss_of cenv0 qc_use (PlannerInfo 0) path0) [Expr 1]) =
     Some (log_37, 1) \<and>
   d_lt (Finite 0) (c_exp cenv0 log_37) \<and>
   (\<exists>res. aqo_estimate_num_groups_hook cenv0 qc_use (PlannerInfo 0) [Expr 1] path0 rel0 None None =
            Inr res \<and>
          ng_value res = Finite (37 - 1 / 2 ^ 47) \<and>
          predicted_cardinality (ng_grouped_rel res) = Finite (37 - 1 / 2 ^ 47)) \<and>
   load_fss cenv0 (fspace_hash qc_use)
     (get_grouped_exprs_hash cenv0
        (child_fss_of cenv0 qc_use (PlannerInfo 0) (path0\<lparr>parent := rel0\<rparr>)) [Expr 1]) =
     Some (Finite (- 1000), 1) \<and>
   \<not> d_lt (Finite 0) (c_exp cenv0 (Finite (- 1000))) \<and>
   (\<exists>res. aqo_estimate_num_groups_hook cenv0 qc_use (PlannerInfo 0) [Expr 1]
            (path0\<lparr>parent := rel0\<rparr>) rel0 None None = Inr res \<and>
          ng_value res = Finite 1000 \<and>
          predicted_cardinality (ng_grouped_rel res) = Finite (- 1))"
proof -
  have c: "child_fss_of cenv0 qc_use (PlannerInfo 0) path0 = 5"
    by (simp add: child_fss_of_def fixture_path0)
  have c': "child_fss_of cenv0 qc_use (PlannerInfo 0) (path0\<lparr>parent := rel0\<rparr>) = 9"
    by (simp add: child_fss_of_def rel0_def Let_def) (simp add: cenv0_def fixture_qc_use)
  have g: "get_grouped_exprs_hash cenv0 x es = x + 1" for x es
    by (simp add: cenv0_def)
  have l: "load_fss cenv0 (fspace_hash qc_use)
     (get_grouped_exprs_hash cenv0 (child_fss_of cenv0 qc_use (PlannerInfo 0) path0) [Expr 1]) =
     Some (log_37, 1)"
    by (simp add: c g fixture_qc_use load_fss_def) (simp add: cenv0_def)
  have l': "load_fss cenv0 (fspace_hash qc_use)
     (get_grouped_exprs_hash cenv0
        (child_fss_of cenv0 qc_use (PlannerInfo 0) (path0\<lparr>parent := rel0\<rparr>)) [Expr 1]) =
     Some (Finite (- 1000), 1)"
    by (simp add: c' g fixture_qc_use load_fss_def) (simp add: cenv0_def)
  have a: "USE_ASSERT_CHECKING cenv0 \<longrightarrow> (1::int32) = 1" by simp
  have e: "c_exp cenv0 log_37 = Finite (37 - 1 / 2 ^ 47)"
    by (simp add: cenv0_def exp_table_def log_37_def)
  have e': "c_exp cenv0 (Finite (- 1000)) = Finite 0"
    by (simp add: cenv0_def exp_table_def)
  have n: "[Expr 1] \<noteq> []" by simp
  have adopt: "\<exists>res. aqo_estimate_num_groups_hook cenv0 qc_use (PlannerInfo 0) [Expr 1] path0 rel0
                  None None = Inr res \<and>
          ng_value res = Finite (37 - 1 / 2 ^ 47) \<and>
          predicted_cardinality (ng_grouped_rel res) = Finite (37 - 1 / 2 ^ 47)"
    using group_count_is_exp_of_target[OF fixture_qc_use(4) refl n l a, of rel0 None]
    by (auto simp add: e)
  have refuse: "\<exists>res. aqo_estimate_num_groups_hook cenv0 qc_use (PlannerInfo 0) [Expr 1]
            (path0\<lparr>parent := rel0\<rparr>) rel0 None None = Inr res \<and>
          ng_value res = Finite 1000 \<and>
          predicted_cardinality (ng_grouped_rel res) = Finite (- 1)"
    using group_count_is_exp_of_target[OF fixture_qc_use(4) refl n l' a, of rel0 None]
    by (auto simp add: e' fixture_defaults)
  show ?thesis
    using l l' adopt refuse by (simp add: fixture_qc_use e e')
qed

subsection \<open>The signature of the child\<close>

text \<open>
  C7, as stated, fails for a prediction of 0. The base-relation hook adopts the prediction
  0 (its test is \<open>\<ge> 0\<close>) and stores the signature 5 with it, so the relation carries a
  valid predicted cardinality; but \<^verbatim>\<open>predict_num_groups\<close> tests \<open>> 0\<close>, does not take the
  stored signature and asks \<^verbatim>\<open>predict_for_relation\<close> again with the clauses of the path,
  which gives the signature 9: the grouped signature is 10, derived from 9, and not 6,
  derived from the stored 5.
\<close>

theorem zero_prediction_is_rederived:
  "d_le (Finite 0) (fst (baserel_prediction cenv_zero qc_use (PlannerInfo 0) rel0)) \<and>
   rows (aqo_set_baserel_rows_estimate cenv_zero qc_use (PlannerInfo 0) rel0) = Finite 0 \<and>
   predicted_cardinality (aqo_set_baserel_rows_estimate cenv_zero qc_use (PlannerInfo 0) rel0) =
     Finite 0 \<and>
   fss_hash (aqo_set_baserel_rows_estimate cenv_zero qc_use (PlannerInfo 0) rel0) = 5 \<and>
   child_fss_of cenv_zero qc_use (PlannerInfo 0)
     \<lparr>path_node = PathNode 1,
      parent = aqo_set_baserel_rows_estimate cenv_zero qc_use (PlannerInfo 0) rel0,
      path_rows = Finite 0\<rparr> = 9 \<and>
   predict_num_groups cenv_zero qc_use (PlannerInfo 0)
     \<lparr>path_node = PathNode 1,
      parent = aqo_set_baserel_rows_estimate cenv_zero qc_use (PlannerInfo 0) rel0,
      path_rows = Finite 0\<rparr> [Expr 1] = Inr (Finite (- 1), 10) \<and>
   get_grouped_exprs_hash cenv_zero 5 [Expr 1] = 6"
proof -
  have d: "\<not> IsQueryDisabled cenv_zero qc_use"
    by (simp add: cenv_zero_def fixture_qc_use)
  have bp: "baserel_prediction cenv_zero qc_use (PlannerInfo 0) rel0 = (Finite 0, 5)"
    by (simp add: baserel_prediction_def cenv_zero_def cenv0_def rel0_def Let_def)
  have hook: "aqo_set_baserel_rows_estimate cenv_zero qc_use (PlannerInfo 0) rel0 =
      rel0\<lparr>fss_hash := 5, rows := Finite 0, predicted_cardinality := Finite 0\<rparr>"
    by (simp add: aqo_set_baserel_rows_estimate_def d fixture_qc_use bp)
  have o: "predict_for_relation cenv_zero qc_use [] s r = (Finite 0, 9)" for s r
    by (simp add: cenv_zero_def)
  have pc: "get_path_clauses cenv_zero n (PlannerInfo 0) = ([], [])" for n
    by (simp add: cenv_zero_def cenv0_def)
  have child: "child_fss_of cenv_zero qc_use (PlannerInfo 0)
     \<lparr>path_node = n,
      parent = rel0\<lparr>fss_hash := 5, rows := Finite 0, predicted_cardinality := Finite 0\<rparr>,
      path_rows = Finite 0\<rparr> = 9" for n
    by (simp add: child_fss_of_def Let_def pc o)
  have g: "get_grouped_exprs_hash cenv_zero x es = x + 1" for x es
    by (simp add: cenv_zero_def cenv0_def)
  have l: "load_fss cenv_zero (fspace_hash qc_use) 10 = Some (Finite (- 1000), 1)"
    by (simp add: fixture_qc_use load_fss_def) (simp add: cenv_zero_def cenv0_def)
  have e: "c_exp cenv_zero (Finite (- 1000)) = Finite 0"
    by (simp add: cenv_zero_def cenv0_def exp_table_def)
  have p: "predict_num_groups cenv_zero qc_use (PlannerInfo 0)
     \<lparr>path_node = n,
      parent = rel0\<lparr>fss_hash := 5, rows := Finite 0, predicted_cardinality := Finite 0\<rparr>,
      path_rows = Finite 0\<rparr> es = Inr (Finite (- 1), 10)" for n es
    by (simp add: predict_num_groups_def child g l e Let_def)
  show ?thesis
    using child p by (simp add: hook bp g)
qed

text \<open>
  C7, amended. In \<^verbatim>\<open>predict_num_groups\<close>, when the relation of the child path carries a
  strictly positive predicted cardinality (the test of line 419), the grouped signature
  is derived from the stored \<open>fss_hash\<close> of that relation, and the result does not depend
  on \<^verbatim>\<open>predict_for_relation\<close>, \<^verbatim>\<open>get_path_clauses\<close> or \<^verbatim>\<open>get_list_of_relids\<close>: nothing of
  the child is derived again. Otherwise, that is without a prediction (the value \<open>-1\<close>),
  with an adopted prediction of 0, or with NaN, the child signature is the one that
  \<^verbatim>\<open>predict_for_relation\<close> computes from the clauses and selectivities of the child path
  and the relids of its relation.
\<close>

theorem child_signature_fast_path:
  "(d_lt (Finite 0) (predicted_cardinality (parent subpath)) \<longrightarrow>
      child_fss_of env qc proot subpath = fss_hash (parent subpath) \<and>
      predict_num_groups
        (env\<lparr>predict_for_relation := any_prediction, get_path_clauses := any_clauses,
             get_list_of_relids := any_relids\<rparr>) qc proot subpath group_exprs =
        predict_num_groups env qc proot subpath group_exprs \<and>
      (\<forall>v fss. predict_num_groups env qc proot subpath group_exprs = Inr (v, fss) \<longrightarrow>
         fss = get_grouped_exprs_hash env (fss_hash (parent subpath)) group_exprs)) \<and>
   (\<not> d_lt (Finite 0) (predicted_cardinality (parent subpath)) \<longrightarrow>
      child_fss_of env qc proot subpath =
        snd (predict_for_relation env qc
               (fst (get_path_clauses env (path_node subpath) proot))
               (snd (get_path_clauses env (path_node subpath) proot))
               (get_list_of_relids env proot (relids (parent subpath)))) \<and>
      (\<forall>v fss. predict_num_groups env qc proot subpath group_exprs = Inr (v, fss) \<longrightarrow>
         fss = get_grouped_exprs_hash env
                 (snd (predict_for_relation env qc
                         (fst (get_path_clauses env (path_node subpath) proot))
                         (snd (get_path_clauses env (path_node subpath) proot))
                         (get_list_of_relids env proot (relids (parent subpath)))))
                 group_exprs))"
proof -
  have fss: "fss = get_grouped_exprs_hash env (child_fss_of env qc proot subpath) group_exprs"
    if "predict_num_groups env qc proot subpath group_exprs = Inr (v, fss)" for v fss
    using that
    by (auto simp add: predict_num_groups_def Let_def split: option.splits if_splits)
  have fast: "child_fss_of env' qc proot subpath = fss_hash (parent subpath)"
    if "d_lt (Finite 0) (predicted_cardinality (parent subpath))" for env'
    using that by (simp add: child_fss_of_def)
  have slow: "child_fss_of env qc proot subpath =
        snd (predict_for_relation env qc
               (fst (get_path_clauses env (path_node subpath) proot))
               (snd (get_path_clauses env (path_node subpath) proot))
               (get_list_of_relids env proot (relids (parent subpath))))"
    if "\<not> d_lt (Finite 0) (predicted_cardinality (parent subpath))"
    using that by (simp add: child_fss_of_def Let_def split_beta)
  have indep: "predict_num_groups
        (env\<lparr>predict_for_relation := any_prediction, get_path_clauses := any_clauses,
             get_list_of_relids := any_relids\<rparr>) qc proot subpath group_exprs =
        predict_num_groups env qc proot subpath group_exprs"
    if "d_lt (Finite 0) (predicted_cardinality (parent subpath))"
    by (simp add: predict_num_groups_def fast[OF that] load_fss_def Let_def split: option.split)
  show ?thesis
    using fss fast slow indep by (metis (no_types, lifting))
qed

theorem child_signature_fast_path_witness:
  "d_lt (Finite 0) (predicted_cardinality (parent path0)) \<and>
   child_fss_of cenv0 qc_use (PlannerInfo 0) path0 = 5 \<and>
   predict_num_groups cenv0 qc_use (PlannerInfo 0) path0 [Expr 1] =
     Inr (Finite (37 - 1 / 2 ^ 47), 6) \<and>
   \<not> d_lt (Finite 0) (predicted_cardinality (parent (path0\<lparr>parent := rel0\<rparr>))) \<and>
   child_fss_of cenv0 qc_use (PlannerInfo 0) (path0\<lparr>parent := rel0\<rparr>) = 9 \<and>
   \<not> d_lt (Finite 0)
       (predicted_cardinality (parent (path0\<lparr>parent := rel0\<lparr>predicted_cardinality := Finite 0\<rparr>\<rparr>))) \<and>
   child_fss_of cenv0 qc_use (PlannerInfo 0)
     (path0\<lparr>parent := rel0\<lparr>predicted_cardinality := Finite 0\<rparr>\<rparr>) = 9"
proof -
  have p: "predict_num_groups cenv0 qc_use (PlannerInfo 0) path0 [Expr 1] =
             Inr (Finite (37 - 1 / 2 ^ 47), 6)"
    by (simp add: predict_num_groups_def child_fss_of_def fixture_path0 Let_def cenv0_def
        load_fss_def fixture_qc_use exp_table_def log_37_def)
  have o: "predict_for_relation cenv0 qc_use c s r = (Finite 120, 9)" for c s r
    by (simp add: cenv0_def fixture_qc_use)
  show ?thesis
    using child_signature_fast_path[of path0 cenv0 qc_use "PlannerInfo 0"]
      child_signature_fast_path[of "path0\<lparr>parent := rel0\<rparr>" cenv0 qc_use "PlannerInfo 0"]
      child_signature_fast_path[of "path0\<lparr>parent := rel0\<lparr>predicted_cardinality := Finite 0\<rparr>\<rparr>"
        cenv0 qc_use "PlannerInfo 0"]
      fixture_path0 p
    by (simp add: o)
qed

subsection \<open>Repeated estimation\<close>

text \<open>
  C8. With the same query context and the same knowledge base, two calls of
  \<^verbatim>\<open>aqo_set_baserel_rows_estimate\<close> on relations with the same range-table index, the same
  restriction clauses and the same stored signature leave the same predicted cardinality
  and the same signature; in particular a second call on the relation as the first call
  left it gives the same predicted cardinality and the same signature as the first.
\<close>

theorem baserel_estimate_idempotent:
  "(relid r2 = relid r1 \<and> baserestrictinfo r2 = baserestrictinfo r1 \<and> fss_hash r2 = fss_hash r1 \<longrightarrow>
      predicted_cardinality (aqo_set_baserel_rows_estimate env qc proot r2) =
        predicted_cardinality (aqo_set_baserel_rows_estimate env qc proot r1) \<and>
      fss_hash (aqo_set_baserel_rows_estimate env qc proot r2) =
        fss_hash (aqo_set_baserel_rows_estimate env qc proot r1)) \<and>
   predicted_cardinality
     (aqo_set_baserel_rows_estimate env qc proot (aqo_set_baserel_rows_estimate env qc proot rel)) =
     predicted_cardinality (aqo_set_baserel_rows_estimate env qc proot rel) \<and>
   fss_hash
     (aqo_set_baserel_rows_estimate env qc proot (aqo_set_baserel_rows_estimate env qc proot rel)) =
     fss_hash (aqo_set_baserel_rows_estimate env qc proot rel)"
proof -
  have same: "baserel_prediction env qc proot (aqo_set_baserel_rows_estimate env qc proot rel) =
      baserel_prediction env qc proot rel"
    by (rule baserel_prediction_cong) (simp_all add: aqo_set_baserel_rows_estimate_frame)
  have a: "predicted_cardinality (aqo_set_baserel_rows_estimate env qc proot r2) =
        predicted_cardinality (aqo_set_baserel_rows_estimate env qc proot r1) \<and>
      fss_hash (aqo_set_baserel_rows_estimate env qc proot r2) =
        fss_hash (aqo_set_baserel_rows_estimate env qc proot r1)"
    if "relid r2 = relid r1" "baserestrictinfo r2 = baserestrictinfo r1" "fss_hash r2 = fss_hash r1"
    using that
    by (simp add: aqo_set_baserel_rows_estimate_result baserel_prediction_cong[OF that(1,2)])
  have b: "predicted_cardinality
     (aqo_set_baserel_rows_estimate env qc proot (aqo_set_baserel_rows_estimate env qc proot rel)) =
     predicted_cardinality (aqo_set_baserel_rows_estimate env qc proot rel)"
    by (simp add: aqo_set_baserel_rows_estimate_result same)
  have c: "fss_hash
     (aqo_set_baserel_rows_estimate env qc proot (aqo_set_baserel_rows_estimate env qc proot rel)) =
     fss_hash (aqo_set_baserel_rows_estimate env qc proot rel)"
    by (simp add: aqo_set_baserel_rows_estimate_result same)
  show ?thesis using a b c by blast
qed

theorem baserel_estimate_idempotent_witness:
  "relid (rel0\<lparr>rows := Finite 5\<rparr>) = relid rel0 \<and>
   baserestrictinfo (rel0\<lparr>rows := Finite 5\<rparr>) = baserestrictinfo rel0 \<and>
   fss_hash (rel0\<lparr>rows := Finite 5\<rparr>) = fss_hash rel0 \<and>
   predicted_cardinality (aqo_set_baserel_rows_estimate cenv0 qc_use (PlannerInfo 0)
       (rel0\<lparr>rows := Finite 5\<rparr>)) =
     predicted_cardinality (aqo_set_baserel_rows_estimate cenv0 qc_use (PlannerInfo 0) rel0) \<and>
   fss_hash (aqo_set_baserel_rows_estimate cenv0 qc_use (PlannerInfo 0) (rel0\<lparr>rows := Finite 5\<rparr>)) =
     fss_hash (aqo_set_baserel_rows_estimate cenv0 qc_use (PlannerInfo 0) rel0)"
  using baserel_estimate_idempotent[of "rel0\<lparr>rows := Finite 5\<rparr>" rel0 cenv0 qc_use "PlannerInfo 0" rel0]
  by simp

subsection \<open>Registration without a query text\<close>

text \<open>
  C9. When \<^verbatim>\<open>aqo_planner\<close> registers a class (neither early exit, class not found, and the
  mode Intelligent or Learn or forced collection in a mode among the six) and the query
  text is NULL, the class row is still written under the lock, no call writes a text, the
  text table is unchanged, and the call ends with the plan of the default planner.
\<close>

theorem registration_without_query_text:
  assumes "\<not> fast_exit env parse None st"
    and "\<not> query_is_stored_at_label env parse None st"
    and "aqo_mode env = AQO_MODE_INTELLIGENT \<or> aqo_mode env = AQO_MODE_LEARN \<or>
         (force_collect_stat env \<and> recognized_mode (aqo_mode env))"
  shows "fst (aqo_planner env parse None co bp st) = Planned (default_plan env parse None co bp) \<and>
         aqo_queries (snd (aqo_planner env parse None co bp st)) =
           (aqo_queries st)(get_query_hash env parse None \<mapsto>
              \<lparr>row_learn_aqo = learn_aqo (query_context (settled_state env parse None st)),
               row_use_aqo = use_aqo (query_context (settled_state env parse None st)),
               row_fspace_hash = fspace_hash (query_context (settled_state env parse None st)),
               row_auto_tuning = auto_tuning (query_context (settled_state env parse None st))\<rparr>) \<and>
         aqo_query_texts (snd (aqo_planner env parse None co bp st)) = aqo_query_texts st \<and>
         (\<exists>pre. new_events st (snd (aqo_planner env parse None co bp st)) =
            pre @
            [Ev_LockAcquire (LOCKTAG (get_query_hash env parse None) 0) ExclusiveLock,
             Ev_update_query (get_query_hash env parse None)
               (fspace_hash (query_context (settled_state env parse None st)))
               (learn_aqo (query_context (settled_state env parse None st)))
               (use_aqo (query_context (settled_state env parse None st)))
               (auto_tuning (query_context (settled_state env parse None st))),
             Ev_LockRelease (LOCKTAG (get_query_hash env parse None) 0) ExclusiveLock,
             Ev_default_planner] \<and>
            set pre \<subseteq> {Ev_selectivity_cache_clear, Ev_find_query (get_query_hash env parse None)})"
proof -
  have rec: "recognized_mode (aqo_mode env)"
    using assms(3) by auto
  let ?qc = "query_context (settled_state env parse None st)"
  have reg: "adding_query ?qc \<or> force_collect_stat env"
    using assms(2,3) rec
    by (auto simp add: settled_state_adding query_is_stored_at_label_def)
  have eq: "aqo_planner env parse None co bp st =
      ignore_query_settings env False parse None co bp (settled_state env parse None st)"
    using assms(1,2) rec by (simp add: aqo_planner_settled)
  obtain pre where pre: "trace (settled_state env parse None st) = trace st @ pre"
    "set pre \<subseteq> {Ev_selectivity_cache_clear, Ev_find_query (get_query_hash env parse None)}"
    using settled_state_trace[of env parse None st] assms(2) by blast
  have tr: "trace (snd (aqo_planner env parse None co bp st)) =
      trace st @ (pre @ registration_events None ?qc @ [Ev_default_planner])"
    unfolding eq using reg pre(1) by (simp add: ignore_query_settings_effect)
  have "new_events st (snd (aqo_planner env parse None co bp st)) =
      pre @ registration_events None ?qc @ [Ev_default_planner]"
    by (rule new_events_append[OF tr])
  then have ev: "\<exists>pre. new_events st (snd (aqo_planner env parse None co bp st)) =
            pre @
            [Ev_LockAcquire (LOCKTAG (get_query_hash env parse None) 0) ExclusiveLock,
             Ev_update_query (get_query_hash env parse None)
               (fspace_hash ?qc) (learn_aqo ?qc) (use_aqo ?qc) (auto_tuning ?qc),
             Ev_LockRelease (LOCKTAG (get_query_hash env parse None) 0) ExclusiveLock,
             Ev_default_planner] \<and>
            set pre \<subseteq> {Ev_selectivity_cache_clear, Ev_find_query (get_query_hash env parse None)}"
    using pre(2) by (simp add: registration_events_def settled_state_hash)
  have "fst (aqo_planner env parse None co bp st) = Planned (default_plan env parse None co bp)"
    unfolding eq by (rule ignore_query_settings_plan)
  moreover have "aqo_queries (snd (aqo_planner env parse None co bp st)) =
           (aqo_queries st)(get_query_hash env parse None \<mapsto>
              \<lparr>row_learn_aqo = learn_aqo ?qc, row_use_aqo = use_aqo ?qc,
               row_fspace_hash = fspace_hash ?qc, row_auto_tuning = auto_tuning ?qc\<rparr>)"
    unfolding eq using reg
    by (simp add: ignore_query_settings_effect settled_state_hash settled_state_frame)
  moreover have "aqo_query_texts (snd (aqo_planner env parse None co bp st)) = aqo_query_texts st"
    unfolding eq using reg
    by (simp add: ignore_query_settings_effect settled_state_frame)
  ultimately show ?thesis using ev by blast
qed

theorem registration_without_query_text_witness:
  "\<not> fast_exit env0 query0 None state0 \<and>
   \<not> query_is_stored_at_label env0 query0 None state0 \<and>
   aqo_mode env0 = AQO_MODE_INTELLIGENT \<and>
   fst (aqo_planner env0 query0 None 0 (ParamListInfo 0) state0) = Planned (PlannedStmt 1) \<and>
   aqo_queries (snd (aqo_planner env0 query0 None 0 (ParamListInfo 0) state0)) 42 \<noteq> None \<and>
   aqo_query_texts (snd (aqo_planner env0 query0 None 0 (ParamListInfo 0) state0)) =
     aqo_query_texts state0"
proof -
  have nf: "\<not> fast_exit env0 query0 None state0"
    using fixture_no_fast_exit[of AQO_MODE_INTELLIGENT None] by (simp add: env0_def)
  have ns: "\<not> query_is_stored_at_label env0 query0 None state0"
    by (simp add: query_is_stored_at_label_def fixture_new)
  have m: "aqo_mode env0 = AQO_MODE_INTELLIGENT" by (simp add: env0_def)
  have m': "aqo_mode env0 = AQO_MODE_INTELLIGENT \<or> aqo_mode env0 = AQO_MODE_LEARN \<or>
         (force_collect_stat env0 \<and> recognized_mode (aqo_mode env0))"
    using m by simp
  show ?thesis
    using registration_without_query_text[OF nf ns m', of 0 "ParamListInfo 0"] nf ns m
    by (simp add: fixture_hash fixture_plan0)
qed

subsection \<open>Forced collection of statistics\<close>

text \<open>
  C10. When the query takes neither early exit, the mode is one of the six and
  \<^verbatim>\<open>force_collect_stat\<close> is on, the context that \<^verbatim>\<open>aqo_planner\<close> leaves has \<open>collect_stat\<close>
  set and its feature space equal to the query hash, whatever the mode and whether or not
  the class is stored.
\<close>

theorem force_collect_overrides:
  assumes "\<not> fast_exit env parse qs st"
    and "recognized_mode (aqo_mode env)"
    and "force_collect_stat env"
  shows "collect_stat (query_context (snd (aqo_planner env parse qs co bp st))) \<and>
         fspace_hash (query_context (snd (aqo_planner env parse qs co bp st))) =
           get_query_hash env parse qs \<and>
         query_hash (query_context (snd (aqo_planner env parse qs co bp st))) =
           get_query_hash env parse qs"
  using assms
  by (simp add: aqo_planner_settled ignore_query_settings_flags settled_state_hash)

theorem force_collect_overrides_witness:
  "\<not> fast_exit (env0\<lparr>aqo_mode := AQO_MODE_DISABLED, force_collect_stat := True\<rparr>) query0
       (Some ''select 1'') state0 \<and>
   recognized_mode (aqo_mode (env0\<lparr>aqo_mode := AQO_MODE_DISABLED, force_collect_stat := True\<rparr>)) \<and>
   force_collect_stat (env0\<lparr>aqo_mode := AQO_MODE_DISABLED, force_collect_stat := True\<rparr>) \<and>
   collect_stat (query_context (snd (aqo_planner
       (env0\<lparr>aqo_mode := AQO_MODE_DISABLED, force_collect_stat := True\<rparr>) query0
       (Some ''select 1'') 0 (ParamListInfo 0) state0))) \<and>
   fspace_hash (query_context (snd (aqo_planner
       (env0\<lparr>aqo_mode := AQO_MODE_DISABLED, force_collect_stat := True\<rparr>) query0
       (Some ''select 1'') 0 (ParamListInfo 0) state0))) = 42 \<and>
   collect_stat (query_context (snd (aqo_planner
       (env0\<lparr>aqo_mode := AQO_MODE_FORCED, force_collect_stat := True\<rparr>) query0
       (Some ''select 1'') 0 (ParamListInfo 0) state0))) \<and>
   fspace_hash (query_context (snd (aqo_planner
       (env0\<lparr>aqo_mode := AQO_MODE_FORCED, force_collect_stat := True\<rparr>) query0
       (Some ''select 1'') 0 (ParamListInfo 0) state0))) = 42"
  using force_collect_overrides[where env="env0\<lparr>aqo_mode := AQO_MODE_DISABLED, force_collect_stat := True\<rparr>"
      and parse=query0 and qs="Some ''select 1''" and st=state0 and co=0 and bp="ParamListInfo 0"]
    force_collect_overrides[where env="env0\<lparr>aqo_mode := AQO_MODE_FORCED, force_collect_stat := True\<rparr>"
      and parse=query0 and qs="Some ''select 1''" and st=state0 and co=0 and bp="ParamListInfo 0"]
    fixture_no_fast_exit_forced_collect[of AQO_MODE_DISABLED "Some ''select 1''"]
    fixture_no_fast_exit_forced_collect[of AQO_MODE_FORCED "Some ''select 1''"]
  by (simp add: fixture_hash)

end
